theory Spec2Isabelle
  imports Main "HOL-Library.Word"
begin

unbundle bit_operations_syntax

section \<open>ANX7688 USB-C bridge driver (drivers/usb/typec/anx7688.c)\<close>

text \<open>
  A shallow embedding of the OCM message transport, the PD message interpreter, the
  connect/disconnect sequences and the current-limit engine of the driver.  The driver
  state (\<open>struct anx7688\<close>) is a record that every function takes and returns.  The
  collaborators (I2C bus, GPIOs, regulators, power supply, Type-C class, role switch,
  extcon, clock, sleeps) are a \<open>world\<close>: every call is appended to a trace, and the
  value a call returns is taken from an arbitrary script, so that every theorem holds for
  every behaviour of the hardware.  Log output (\<open>dev_dbg\<close>, \<open>dev_info\<close>, \<open>dev_err\<close>)
  has no effect on the driver and is left out.
\<close>

subsection \<open>Machine types and constants\<close>

type_synonym u8 = "8 word"
type_synonym u32 = "32 word"

text \<open>Error numbers of the kernel (include/uapi/asm-generic/errno-base.h, errno.h).\<close>

abbreviation (input) EIO :: int where "EIO \<equiv> 5"
abbreviation (input) EBUSY :: int where "EBUSY \<equiv> 16"
abbreviation (input) EINVAL :: int where "EINVAL \<equiv> 22"
abbreviation (input) ETIMEDOUT :: int where "ETIMEDOUT \<equiv> 110"

text \<open>Firmware registers (main I2C address).\<close>

abbreviation (input) ANX7688_REG_VBUS_OFF_DELAY_TIME :: u8 where "ANX7688_REG_VBUS_OFF_DELAY_TIME \<equiv> 0x22"
abbreviation (input) ANX7688_REG_FEATURE_CTRL :: u8 where "ANX7688_REG_FEATURE_CTRL \<equiv> 0x27"
abbreviation (input) ANX7688_REG_EEPROM_LOAD_STATUS0 :: u8 where "ANX7688_REG_EEPROM_LOAD_STATUS0 \<equiv> 0x12"
abbreviation (input) ANX7688_REG_FW_VERSION1 :: u8 where "ANX7688_REG_FW_VERSION1 \<equiv> 0x15"
abbreviation (input) ANX7688_EEPROM_FW_LOADED :: int where "ANX7688_EEPROM_FW_LOADED \<equiv> 0x01"
abbreviation (input) ANX7688_REG_STATUS_INT_MASK :: u8 where "ANX7688_REG_STATUS_INT_MASK \<equiv> 0x17"
abbreviation (input) ANX7688_REG_STATUS_INT :: u8 where "ANX7688_REG_STATUS_INT \<equiv> 0x28"
abbreviation (input) ANX7688_REG_TRY_UFP_TIMER :: u8 where "ANX7688_REG_TRY_UFP_TIMER \<equiv> 0x23"
abbreviation (input) ANX7688_REG_MAX_VOLTAGE :: u8 where "ANX7688_REG_MAX_VOLTAGE \<equiv> 0x1b"
abbreviation (input) ANX7688_REG_MAX_POWER :: u8 where "ANX7688_REG_MAX_POWER \<equiv> 0x1c"
abbreviation (input) ANX7688_REG_MIN_POWER :: u8 where "ANX7688_REG_MIN_POWER \<equiv> 0x1d"
abbreviation (input) ANX7688_REG_MAX_VOLTAGE_STATUS :: u8 where "ANX7688_REG_MAX_VOLTAGE_STATUS \<equiv> 0x1e"
abbreviation (input) ANX7688_REG_MAX_POWER_STATUS :: u8 where "ANX7688_REG_MAX_POWER_STATUS \<equiv> 0x1f"
abbreviation (input) ANX7688_SOFT_INT_MASK :: u8 where "ANX7688_SOFT_INT_MASK \<equiv> 0x7f"
abbreviation (input) ANX7688_REG_IRQ_EXT_SOURCE2 :: u8 where "ANX7688_REG_IRQ_EXT_SOURCE2 \<equiv> 0x4f"
abbreviation (input) ANX7688_REG_IRQ_EXT_MASK2 :: u8 where "ANX7688_REG_IRQ_EXT_MASK2 \<equiv> 0x3d"
abbreviation (input) ANX7688_IRQ2_SOFT_INT :: u8 where "ANX7688_IRQ2_SOFT_INT \<equiv> 0x04"

text \<open>TCPC registers (second I2C address).\<close>

abbreviation (input) ANX7688_TCPC_REG_INTERFACE_SEND :: u8 where "ANX7688_TCPC_REG_INTERFACE_SEND \<equiv> 0x30"
abbreviation (input) ANX7688_TCPC_REG_INTERFACE_RECV :: u8 where "ANX7688_TCPC_REG_INTERFACE_RECV \<equiv> 0x51"

text \<open>OCM message commands.\<close>

abbreviation (input) ANX7688_OCM_MSG_PWR_SRC_CAP :: u8 where "ANX7688_OCM_MSG_PWR_SRC_CAP \<equiv> 0x00"
abbreviation (input) ANX7688_OCM_MSG_PWR_SNK_CAP :: u8 where "ANX7688_OCM_MSG_PWR_SNK_CAP \<equiv> 0x01"
abbreviation (input) ANX7688_OCM_MSG_DP_SNK_IDENTITY :: u8 where "ANX7688_OCM_MSG_DP_SNK_IDENTITY \<equiv> 0x02"
abbreviation (input) ANX7688_OCM_MSG_SVID :: u8 where "ANX7688_OCM_MSG_SVID \<equiv> 0x03"
abbreviation (input) ANX7688_OCM_MSG_PWR_OBJ_REQ :: u8 where "ANX7688_OCM_MSG_PWR_OBJ_REQ \<equiv> 0x16"
abbreviation (input) ANX7688_OCM_MSG_HARD_RST :: u8 where "ANX7688_OCM_MSG_HARD_RST \<equiv> 0xf2"

subsection \<open>The collaborators\<close>

datatype i2c_client = CLIENT | CLIENT_TCPC

datatype gpio = GPIO_ENABLE | GPIO_RESET | GPIO_CABLEDET

datatype supply_index = ANX7688_VCONN_INDEX | ANX7688_VBUS_INDEX

datatype psy_prop =
    POWER_SUPPLY_PROP_INPUT_CURRENT_LIMIT
  | POWER_SUPPLY_PROP_ONLINE
  | POWER_SUPPLY_PROP_USB_BC_ENABLED

datatype typec_role = TYPEC_SINK | TYPEC_SOURCE

datatype typec_data_role = TYPEC_DEVICE | TYPEC_HOST

datatype usb_role = USB_ROLE_NONE | USB_ROLE_HOST | USB_ROLE_DEVICE

text \<open>
  \<open>enum typec_pwr_opmode\<close> of include/linux/usb/typec.h.  The driver keeps the mode in an
  \<open>int\<close> that also holds the value \<open>-1\<close> of \<open>anx7688_cc_status\<close>, so the modes are
  integers here as well.
\<close>

abbreviation (input) TYPEC_PWR_MODE_USB :: int where "TYPEC_PWR_MODE_USB \<equiv> 0"
abbreviation (input) TYPEC_PWR_MODE_1_5A :: int where "TYPEC_PWR_MODE_1_5A \<equiv> 1"
abbreviation (input) TYPEC_PWR_MODE_3_0A :: int where "TYPEC_PWR_MODE_3_0A \<equiv> 2"
abbreviation (input) TYPEC_PWR_MODE_PD :: int where "TYPEC_PWR_MODE_PD \<equiv> 3"

text \<open>One constructor for each collaborator function the modelled code calls.\<close>

datatype event =
    Msleep nat
  | Udelay nat
  | Gpiod_set_value gpio int
  | Regulator_enable supply_index
  | Regulator_disable supply_index
  | I2c_read_byte i2c_client u8
  | I2c_write_byte i2c_client u8 u8
  | I2c_read_block i2c_client u8 nat
  | I2c_write_block i2c_client u8 nat "u8 list"
  | Power_supply_set_property psy_prop int
  | Power_supply_get_property psy_prop
  | Typec_set_pwr_role typec_role
  | Typec_set_data_role typec_data_role
  | Typec_set_pwr_opmode int
  | Typec_set_vconn_role typec_role
  | Typec_unregister_partner int
  | Typec_register_partner
  | Usb_role_switch_set_role usb_role
  | Extcon_set_state_sync int
  | Ktime_get

text \<open>
  The world outside the driver.  \<open>trace\<close> lists the calls made so far, oldest first.
  \<open>ncalls\<close> counts the calls that return a value; the \<open>n\<close>-th of them returns
  \<open>rets n\<close>, and where the function fills a buffer or an out-parameter, that holds
  \<open>bufs n\<close> or \<open>vals n\<close> afterwards.  The three scripts are arbitrary.
\<close>

record world =
  rets :: "nat \<Rightarrow> int"
  bufs :: "nat \<Rightarrow> u8 list"
  vals :: "nat \<Rightarrow> int"
  ncalls :: nat
  trace :: "event list"

definition emit :: "event \<Rightarrow> world \<Rightarrow> world" where
  "emit e w = w\<lparr>trace := trace w @ [e]\<rparr>"

definition call :: "event \<Rightarrow> world \<Rightarrow> int \<times> world" where
  "call e w = (rets w (ncalls w), w\<lparr>ncalls := Suc (ncalls w), trace := trace w @ [e]\<rparr>)"

text \<open>The result of the \<open>k\<close>-th value-returning call from now on.\<close>

definition next_ret :: "world \<Rightarrow> nat \<Rightarrow> int" where
  "next_ret w k = rets w (ncalls w + k)"

definition msleep :: "nat \<Rightarrow> world \<Rightarrow> world" where
  "msleep ms w = emit (Msleep ms) w"

definition udelay :: "nat \<Rightarrow> world \<Rightarrow> world" where
  "udelay us w = emit (Udelay us) w"

definition gpiod_set_value :: "gpio \<Rightarrow> int \<Rightarrow> world \<Rightarrow> world" where
  "gpiod_set_value g v w = emit (Gpiod_set_value g v) w"

definition regulator_enable :: "supply_index \<Rightarrow> world \<Rightarrow> int \<times> world" where
  "regulator_enable r w = call (Regulator_enable r) w"

definition regulator_disable :: "supply_index \<Rightarrow> world \<Rightarrow> int \<times> world" where
  "regulator_disable r w = call (Regulator_disable r) w"

definition i2c_smbus_read_byte_data :: "i2c_client \<Rightarrow> u8 \<Rightarrow> world \<Rightarrow> int \<times> world" where
  "i2c_smbus_read_byte_data c reg w = call (I2c_read_byte c reg) w"

definition i2c_smbus_write_byte_data :: "i2c_client \<Rightarrow> u8 \<Rightarrow> u8 \<Rightarrow> world \<Rightarrow> int \<times> world" where
  "i2c_smbus_write_byte_data c reg v w = call (I2c_write_byte c reg v) w"

definition i2c_smbus_read_i2c_block_data ::
  "i2c_client \<Rightarrow> u8 \<Rightarrow> nat \<Rightarrow> world \<Rightarrow> int \<times> u8 list \<times> world" where
  "i2c_smbus_read_i2c_block_data c reg len w =
     (case call (I2c_read_block c reg len) w of (ret, w') \<Rightarrow> (ret, bufs w (ncalls w), w'))"

definition i2c_smbus_write_i2c_block_data ::
  "i2c_client \<Rightarrow> u8 \<Rightarrow> nat \<Rightarrow> u8 list \<Rightarrow> world \<Rightarrow> int \<times> world" where
  "i2c_smbus_write_i2c_block_data c reg len data w = call (I2c_write_block c reg len data) w"

definition power_supply_set_property :: "psy_prop \<Rightarrow> int \<Rightarrow> world \<Rightarrow> int \<times> world" where
  "power_supply_set_property p v w = call (Power_supply_set_property p v) w"

definition power_supply_get_property :: "psy_prop \<Rightarrow> world \<Rightarrow> int \<times> int \<times> world" where
  "power_supply_get_property p w =
     (case call (Power_supply_get_property p) w of (ret, w') \<Rightarrow> (ret, vals w (ncalls w), w'))"

definition ktime_get :: "world \<Rightarrow> int \<times> world" where
  "ktime_get w = call Ktime_get w"

text \<open>\<open>ktime_t\<close> counts nanoseconds.\<close>

definition ktime_add_ms :: "int \<Rightarrow> int \<Rightarrow> int" where
  "ktime_add_ms kt msec = kt + msec * 1000000"

definition ktime_after :: "int \<Rightarrow> int \<Rightarrow> bool" where
  "ktime_after cmp1 cmp2 = (cmp1 > cmp2)"

text \<open>
  \<open>ERR_PTR\<close> encoding of include/linux/err.h: the pointers \<open>-4095 .. -1\<close> are errors.
\<close>

definition IS_ERR :: "int \<Rightarrow> bool" where
  "IS_ERR p = (- 4095 \<le> p \<and> p < 0)"

subsection \<open>The driver state\<close>

datatype flag =
    ANX7688_F_POWERED
  | ANX7688_F_CONNECTED
  | ANX7688_F_FW_FAILED
  | ANX7688_F_PWRSUPPLY_CHANGE
  | ANX7688_F_CURRENT_UPDATE

text \<open>
  The fields of \<open>struct anx7688\<close> that the modelled functions read or write.  Pointers
  are integers, \<open>0\<close> for \<open>NULL\<close>; \<open>flags\<close> is the set of the bits that are set.
\<close>

record anx7688 =
  input_current_limit :: int
  src_caps :: "u32 list"
  n_src_caps :: nat
  snk_caps :: "u32 list"
  n_snk_caps :: nat
  flags :: "flag set"
  vbus_on :: bool
  vconn_on :: bool
  pd_capable :: bool
  pd_current_limit :: int
  current_update_deadline :: int
  partner :: int
  pwr_role :: typec_role
  data_role :: typec_data_role
  last_status :: int
  last_cc_status :: int
  last_dp_state :: int
  last_bc_result :: int
  extcon :: int
  last_extcon_state :: int

text \<open>
  \<open>set_bit\<close> and \<open>clear_bit\<close> on \<open>anx7688->flags\<close>; the names carry a suffix
  because \<open>set_bit\<close> is a constant of HOL.
\<close>

definition set_bit_flags :: "flag \<Rightarrow> anx7688 \<Rightarrow> anx7688" where
  "set_bit_flags f s = s\<lparr>flags := insert f (flags s)\<rparr>"

definition clear_bit_flags :: "flag \<Rightarrow> anx7688 \<Rightarrow> anx7688" where
  "clear_bit_flags f s = s\<lparr>flags := flags s - {f}\<rparr>"

subsection \<open>Register access\<close>

definition anx7688_reg_read :: "u8 \<Rightarrow> world \<Rightarrow> int \<times> world" where
  "anx7688_reg_read reg_addr w = i2c_smbus_read_byte_data CLIENT reg_addr w"

definition anx7688_reg_write :: "u8 \<Rightarrow> u8 \<Rightarrow> world \<Rightarrow> int \<times> world" where
  "anx7688_reg_write reg_addr v w = i2c_smbus_write_byte_data CLIENT reg_addr v w"

definition anx7688_tcpc_reg_read :: "u8 \<Rightarrow> world \<Rightarrow> int \<times> world" where
  "anx7688_tcpc_reg_read reg_addr w = i2c_smbus_read_byte_data CLIENT_TCPC reg_addr w"

definition anx7688_tcpc_reg_write :: "u8 \<Rightarrow> u8 \<Rightarrow> world \<Rightarrow> int \<times> world" where
  "anx7688_tcpc_reg_write reg_addr v w = i2c_smbus_write_byte_data CLIENT_TCPC reg_addr v w"

subsection \<open>OCM message transport: sending\<close>

text \<open>
  The packet of \<open>anx7688_send_ocm_message\<close>: \<open>pkt[0] = data_len + 1\<close>, \<open>pkt[1] = cmd\<close>
  (both truncated to a byte), the payload, and \<open>pkt[2 + data_len]\<close>, which starts at 0
  and has every earlier byte subtracted from it, in \<open>u8\<close> arithmetic.
\<close>

definition ocm_pkt :: "int \<Rightarrow> u8 list \<Rightarrow> u8 list" where
  "ocm_pkt cmd data =
     (let hdr = [of_nat (length data + 1), of_int cmd] @ data
      in hdr @ [fold (\<lambda>b c. c - b) hdr 0])"

text \<open>
  The loop \<open>for (i = 0; i < 300; i++)\<close> that waits for the send queue to drain; the
  argument is the number of iterations left.
\<close>

fun ocm_wait_flush :: "nat \<Rightarrow> world \<Rightarrow> int \<times> world" where
  "ocm_wait_flush 0 w = (- ETIMEDOUT, w)"
| "ocm_wait_flush (Suc n) w =
     (case anx7688_tcpc_reg_read ANX7688_TCPC_REG_INTERFACE_SEND w of
        (ret, w1) \<Rightarrow> if ret \<le> 0 then (ret, w1) else ocm_wait_flush n (udelay 100 w1))"

text \<open>
  \<open>data_len\<close> is the length of \<open>data\<close>.  The result of the block write is only logged.
\<close>

definition anx7688_send_ocm_message :: "int \<Rightarrow> u8 list \<Rightarrow> world \<Rightarrow> int \<times> world" where
  "anx7688_send_ocm_message cmd data w =
     (if length data > 32 - 3 then (- EINVAL, w)
      else
        case anx7688_tcpc_reg_read ANX7688_TCPC_REG_INTERFACE_SEND w of
          (ret, w1) \<Rightarrow>
            if ret \<noteq> 0 then (- EBUSY, w1)
            else
              case i2c_smbus_write_i2c_block_data CLIENT_TCPC ANX7688_TCPC_REG_INTERFACE_SEND
                     (length data + 3) (ocm_pkt cmd data) w1 of
                (ret, w2) \<Rightarrow> ocm_wait_flush 300 w2)"

subsection \<open>PD message interpreter\<close>

text \<open>
  Only the commands below change the driver state or touch a collaborator; every other
  case of the \<open>switch\<close> logs the message and breaks.  \<open>rdo_max_p * 5000 / rdo_max_v\<close> is
  evaluated where \<open>rdo_max_p \<ge> 0\<close> and \<open>rdo_max_v > 0\<close>, so C's truncating division is
  \<open>div\<close>; a byte read returns at most 255, so the \<open>int\<close> product cannot overflow.
\<close>

definition anx7688_handle_pd_message ::
  "anx7688 \<Rightarrow> world \<Rightarrow> u8 \<Rightarrow> u8 list \<Rightarrow> nat \<Rightarrow> int \<times> anx7688 \<times> world" where
  "anx7688_handle_pd_message s w cmd msg len =
     (if cmd = ANX7688_OCM_MSG_PWR_SRC_CAP then
        (if len mod 4 \<noteq> 0 then (0, s, w)
         else
           let s1 = s\<lparr>pd_capable := True\<rparr> in
           case anx7688_reg_read ANX7688_REG_MAX_VOLTAGE_STATUS w of
             (rdo_max_v, w1) \<Rightarrow>
               if rdo_max_v < 0 then (rdo_max_v, s1, w1)
               else if rdo_max_v = 0 then (- EINVAL, s1, w1)
               else
                 case anx7688_reg_read ANX7688_REG_MAX_POWER_STATUS w1 of
                   (rdo_max_p, w2) \<Rightarrow>
                     if rdo_max_p < 0 then (rdo_max_p, s1, w2)
                     else
                       let s2 = s1\<lparr>pd_current_limit := rdo_max_p * 5000 div rdo_max_v\<rparr> in
                       case ktime_get w2 of
                         (now, w3) \<Rightarrow>
                           (0, s2\<lparr>current_update_deadline := ktime_add_ms now 500\<rparr>, w3))
      else if cmd = ANX7688_OCM_MSG_PWR_OBJ_REQ then (0, s\<lparr>pd_capable := True\<rparr>, w)
      else if cmd = ANX7688_OCM_MSG_HARD_RST then
        (if pd_capable s then
           case power_supply_set_property POWER_SUPPLY_PROP_ONLINE 0 w of
             (ret, w1) \<Rightarrow>
               case ktime_get w1 of
                 (now, w2) \<Rightarrow> (0, s\<lparr>current_update_deadline := ktime_add_ms now 3000\<rparr>, w2)
         else (0, s, w))
      else (0, s, w))"

subsection \<open>OCM message transport: receiving\<close>

text \<open>
  \<open>pkt\<close> is the 32-byte buffer after the block read.  A failure to clear the receive
  register is only logged, and so is the result of the handler.
\<close>

definition anx7688_receive_msg :: "anx7688 \<Rightarrow> world \<Rightarrow> int \<times> anx7688 \<times> world" where
  "anx7688_receive_msg s w =
     (case i2c_smbus_read_i2c_block_data CLIENT_TCPC ANX7688_TCPC_REG_INTERFACE_RECV 32 w of
        (ret, pkt, w1) \<Rightarrow>
          if ret < 0 then (ret, s, w1)
          else
            case anx7688_tcpc_reg_write ANX7688_TCPC_REG_INTERFACE_RECV 0 w1 of
              (ret, w2) \<Rightarrow>
                if pkt ! 0 = 0 \<or> unat (pkt ! 0) > 32 - 2 then (- EINVAL, s, w2)
                else
                  let checksum = fold (\<lambda>b c. c + b) (take (unat (pkt ! 0) + 2) pkt) (0 :: u8) in
                  if checksum \<noteq> 0 then (- EINVAL, s, w2)
                  else
                    case anx7688_handle_pd_message s w2 (pkt ! 1) (drop 2 pkt) (unat (pkt ! 0) - 1) of
                      (r, s', w3) \<Rightarrow> (0, s', w3))"

subsection \<open>Power sequencing\<close>

definition anx7688_power_enable :: "anx7688 \<Rightarrow> world \<Rightarrow> anx7688 \<times> world" where
  "anx7688_power_enable s w =
     (let w1 = gpiod_set_value GPIO_RESET 1 w;
          w2 = gpiod_set_value GPIO_ENABLE 1 w1;
          w3 = msleep 10 w2;
          w4 = gpiod_set_value GPIO_RESET 0 w3;
          w5 = udelay 2 w4
      in (set_bit_flags ANX7688_F_POWERED s, w5))"

definition anx7688_power_disable :: "anx7688 \<Rightarrow> world \<Rightarrow> anx7688 \<times> world" where
  "anx7688_power_disable s w =
     (let w1 = gpiod_set_value GPIO_RESET 1 w;
          w2 = msleep 5 w1;
          w3 = gpiod_set_value GPIO_ENABLE 0 w2
      in (clear_bit_flags ANX7688_F_POWERED s, w3))"

subsection \<open>Connect\<close>

text \<open>
  The test of the firmware-load poll,
  \<open>ret >= 0 && (ret & ANX7688_EEPROM_FW_LOADED) == ANX7688_EEPROM_FW_LOADED\<close>.
\<close>

definition fw_loaded_bit :: "int \<Rightarrow> bool" where
  "fw_loaded_bit ret =
     (ret \<ge> 0 \<and> (ret AND ANX7688_EEPROM_FW_LOADED) = ANX7688_EEPROM_FW_LOADED)"

text \<open>
  The loop \<open>for (i = 0; i < 100; i++)\<close> that waits for the firmware; the argument is the
  number of iterations left, the result says whether the loop left by \<open>goto fw_loaded\<close>.
\<close>

fun connect_wait_fw :: "nat \<Rightarrow> world \<Rightarrow> bool \<times> world" where
  "connect_wait_fw 0 w = (False, w)"
| "connect_wait_fw (Suc n) w =
     (case anx7688_reg_read ANX7688_REG_EEPROM_LOAD_STATUS0 w of
        (ret, w1) \<Rightarrow>
          if fw_loaded_bit ret then (True, w1)
          else connect_wait_fw n (msleep 5 w1))"

text \<open>The labels \<open>err_poweroff\<close> and \<open>err_vconoff\<close>; the latter falls through to the former.\<close>

definition connect_err_poweroff :: "int \<Rightarrow> anx7688 \<Rightarrow> world \<Rightarrow> int \<times> anx7688 \<times> world" where
  "connect_err_poweroff ret s w =
     (case anx7688_power_disable s w of (s1, w1) \<Rightarrow> (ret, s1, w1))"

definition connect_err_vconoff :: "int \<Rightarrow> anx7688 \<Rightarrow> world \<Rightarrow> int \<times> anx7688 \<times> world" where
  "connect_err_vconoff ret s w =
     (case regulator_disable ANX7688_VCONN_INDEX w of
        (r, w1) \<Rightarrow> connect_err_poweroff ret (s\<lparr>vconn_on := False\<rparr>) w1)"

text \<open>
  \<open>caps[i] = cpu_to_le32(src_caps[i])\<close> for \<open>i < n\<close>, read as \<open>4 * n\<close> bytes.
\<close>

definition le32_bytes :: "u32 \<Rightarrow> u8 list" where
  "le32_bytes x = [ucast x, ucast (drop_bit 8 x), ucast (drop_bit 16 x), ucast (drop_bit 24 x)]"

definition caps_bytes :: "nat \<Rightarrow> u32 list \<Rightarrow> u8 list" where
  "caps_bytes n caps = concat (map le32_bytes (take n caps))"

definition dp_snk_identity :: "u8 list" where
  "dp_snk_identity =
     [0x00, 0x00, 0x00, 0xec,
      0x00, 0x00, 0x00, 0x00,
      0x00, 0x00, 0x00, 0x00,
      0x39, 0x00, 0x00, 0x51]"

definition svid :: "u8 list" where
  "svid = [0x00, 0x00, 0x01, 0xff]"

text \<open>
  The part of \<open>anx7688_connect\<close> from the label \<open>fw_loaded\<close> to the registration of the
  partner.  A result other than 0 is the \<open>ret\<close> with which the code jumps to
  \<open>err_vconoff\<close>.  The arguments \<open>100 / 4\<close>, \<open>300 / 2\<close> and \<open>15 * 2\<close> are computed in
  \<open>int\<close> and converted to \<open>u8\<close> by the call.
\<close>

definition connect_fw_loaded :: "anx7688 \<Rightarrow> world \<Rightarrow> int \<times> anx7688 \<times> world" where
  "connect_fw_loaded s w =
     (case i2c_smbus_read_i2c_block_data CLIENT ANX7688_REG_FW_VERSION1 2 w of (ret, fw, w) \<Rightarrow>
        if ret < 0 then (ret, s, w) else
      case anx7688_reg_write ANX7688_REG_STATUS_INT 0 w of (ret, w) \<Rightarrow>
        if ret \<noteq> 0 then (ret, s, w) else
      case anx7688_reg_write ANX7688_REG_STATUS_INT_MASK (NOT ANX7688_SOFT_INT_MASK) w of (ret, w) \<Rightarrow>
        if ret \<noteq> 0 then (ret, s, w) else
      case anx7688_reg_write ANX7688_REG_IRQ_EXT_SOURCE2 0xff w of (ret, w) \<Rightarrow>
        if ret \<noteq> 0 then (ret, s, w) else
      case anx7688_reg_write ANX7688_REG_IRQ_EXT_MASK2 (NOT ANX7688_IRQ2_SOFT_INT) w of (ret, w) \<Rightarrow>
        if ret \<noteq> 0 then (ret, s, w) else
      case anx7688_reg_write ANX7688_REG_VBUS_OFF_DELAY_TIME (of_int (100 div 4)) w of (ret, w) \<Rightarrow>
        if ret \<noteq> 0 then (ret, s, w) else
      case anx7688_reg_write ANX7688_REG_TRY_UFP_TIMER (of_int (300 div 2)) w of (ret, w) \<Rightarrow>
        if ret \<noteq> 0 then (ret, s, w) else
      case anx7688_reg_write ANX7688_REG_MAX_VOLTAGE 50 w of (ret, w) \<Rightarrow>
        if ret \<noteq> 0 then (ret, s, w) else
      case anx7688_reg_write ANX7688_REG_MAX_POWER (of_int (15 * 2)) w of (ret, w) \<Rightarrow>
        if ret \<noteq> 0 then (ret, s, w) else
      case anx7688_reg_write ANX7688_REG_MIN_POWER 1 w of (ret, w) \<Rightarrow>
        if ret \<noteq> 0 then (ret, s, w) else
      case anx7688_reg_write ANX7688_REG_FEATURE_CTRL (0x1e AND NOT (push_bit 2 1)) w of (ret, w) \<Rightarrow>
        if ret \<noteq> 0 then (ret, s, w) else
      case anx7688_send_ocm_message (uint ANX7688_OCM_MSG_PWR_SRC_CAP)
             (caps_bytes (n_src_caps s) (src_caps s)) w of (ret, w) \<Rightarrow>
        if ret \<noteq> 0 then (ret, s, w) else
      case anx7688_send_ocm_message (uint ANX7688_OCM_MSG_PWR_SNK_CAP)
             (caps_bytes (n_snk_caps s) (snk_caps s)) w of (ret, w) \<Rightarrow>
        if ret \<noteq> 0 then (ret, s, w) else
      case anx7688_send_ocm_message (uint ANX7688_OCM_MSG_DP_SNK_IDENTITY) dp_snk_identity w of (ret, w) \<Rightarrow>
        if ret \<noteq> 0 then (ret, s, w) else
      case anx7688_send_ocm_message (uint ANX7688_OCM_MSG_SVID) svid w of (ret, w) \<Rightarrow>
        if ret \<noteq> 0 then (ret, s, w) else
      let w = emit (Typec_unregister_partner (partner s)) w in
      case call Typec_register_partner w of (p, w) \<Rightarrow>
        let s = s\<lparr>partner := p\<rparr> in
        if IS_ERR p then (p, s, w) else (0, s, w))"

definition anx7688_connect :: "anx7688 \<Rightarrow> world \<Rightarrow> int \<times> anx7688 \<times> world" where
  "anx7688_connect s w =
     (let s0 = s\<lparr>last_status := - 1, last_cc_status := - 1, last_dp_state := - 1\<rparr>;
          w0 = msleep 10 w
      in
      case anx7688_power_enable s0 w0 of (s1, w1) \<Rightarrow>
      case regulator_enable ANX7688_VCONN_INDEX w1 of (ret, w2) \<Rightarrow>
        if ret \<noteq> 0 then connect_err_poweroff ret s1 w2
        else
          let s2 = s1\<lparr>vconn_on := True\<rparr> in
          case connect_wait_fw 100 w2 of (loaded, w3) \<Rightarrow>
            if \<not> loaded
            then connect_err_vconoff (- ETIMEDOUT) (set_bit_flags ANX7688_F_FW_FAILED s2) w3
            else
              case connect_fw_loaded s2 w3 of (ret, s3, w4) \<Rightarrow>
                if ret \<noteq> 0 then connect_err_vconoff ret s3 w4
                else
                  case ktime_get w4 of (now, w5) \<Rightarrow>
                    (0,
                     set_bit_flags ANX7688_F_CONNECTED
                       (s3\<lparr>current_update_deadline := ktime_add_ms now 3000\<rparr>),
                     w5))"

subsection \<open>Disconnect\<close>

definition anx7688_set_hdmi_hpd :: "int \<Rightarrow> anx7688 \<Rightarrow> world \<Rightarrow> anx7688 \<times> world" where
  "anx7688_set_hdmi_hpd state s w =
     (if extcon s = 0 then (s, w)
      else if last_extcon_state s \<noteq> state then
        (case call (Extcon_set_state_sync state) w of
           (r, w1) \<Rightarrow> (s\<lparr>last_extcon_state := state\<rparr>, w1))
      else (s, w))"

definition anx7688_disconnect :: "anx7688 \<Rightarrow> world \<Rightarrow> anx7688 \<times> world" where
  "anx7688_disconnect s w =
     (let s = s\<lparr>current_update_deadline := 0\<rparr> in
      case anx7688_set_hdmi_hpd 0 s w of (s, w) \<Rightarrow>
      case (if vconn_on s
            then (case regulator_disable ANX7688_VCONN_INDEX w of
                    (r, w) \<Rightarrow> (s\<lparr>vconn_on := False\<rparr>, w))
            else (s, w)) of (s, w) \<Rightarrow>
      case (if vbus_on s
            then (case regulator_disable ANX7688_VBUS_INDEX w of
                    (r, w) \<Rightarrow> (s\<lparr>vbus_on := False\<rparr>, w))
            else (s, w)) of (s, w) \<Rightarrow>
      case anx7688_power_disable s w of (s, w) \<Rightarrow>
      let s = s\<lparr>pd_capable := False\<rparr>;
          w = emit (Typec_unregister_partner (partner s)) w;
          s = s\<lparr>partner := 0\<rparr>;
          s = s\<lparr>pwr_role := TYPEC_SINK\<rparr>;
          s = s\<lparr>data_role := TYPEC_DEVICE\<rparr>;
          w = emit (Typec_set_pwr_role (pwr_role s)) w;
          w = emit (Typec_set_data_role (data_role s)) w;
          w = emit (Typec_set_pwr_opmode TYPEC_PWR_MODE_USB) w;
          w = emit (Typec_set_vconn_role TYPEC_SINK) w
      in
      case call (Usb_role_switch_set_role USB_ROLE_NONE) w of (r, w) \<Rightarrow>
      case power_supply_set_property POWER_SUPPLY_PROP_INPUT_CURRENT_LIMIT (500 * 1000) w of (ret, w) \<Rightarrow>
      case power_supply_set_property POWER_SUPPLY_PROP_ONLINE 0 w of (ret, w) \<Rightarrow>
      case power_supply_set_property POWER_SUPPLY_PROP_USB_BC_ENABLED 1 w of (ret, w) \<Rightarrow>
        (clear_bit_flags ANX7688_F_CONNECTED s, w))"

subsection \<open>Current-limit engine\<close>

definition anx7688_cc_status :: "u32 \<Rightarrow> int" where
  "anx7688_cc_status v =
     (if v = 0 then - 1
      else if v = 1 then - 1
      else if v = 2 then - 1
      else if v = 4 then TYPEC_PWR_MODE_USB
      else if v = 8 then TYPEC_PWR_MODE_1_5A
      else if v = 12 then TYPEC_PWR_MODE_3_0A
      else - 1)"

text \<open>
  \<open>cc_status\<close> is declared \<open>unsigned\<close>: the cached \<open>int\<close> is converted modulo \<open>2 ^ 32\<close>,
  and the test \<open>cc_status < 0\<close> is kept as the source has it.
\<close>

definition current_update_pwr_mode :: "anx7688 \<Rightarrow> int" where
  "current_update_pwr_mode s =
     (let cc_status = (word_of_int (last_cc_status s) :: u32) in
      if pd_capable s then TYPEC_PWR_MODE_PD
      else if cc_status < 0 then TYPEC_PWR_MODE_USB
      else
        let pwr_mode = anx7688_cc_status (cc_status AND 0xf);
            pwr_mode = (if pwr_mode < 0 then anx7688_cc_status (drop_bit 4 cc_status AND 0xf)
                        else pwr_mode);
            pwr_mode = (if pwr_mode < 0 then TYPEC_PWR_MODE_USB else pwr_mode)
        in pwr_mode)"

definition current_update_limit :: "anx7688 \<Rightarrow> int \<Rightarrow> int" where
  "current_update_limit s pwr_mode =
     (if pwr_mode = TYPEC_PWR_MODE_1_5A then 1500
      else if pwr_mode = TYPEC_PWR_MODE_3_0A then 3000
      else if pwr_mode = TYPEC_PWR_MODE_PD then pd_current_limit s
      else 0)"

definition anx7688_handle_current_update :: "anx7688 \<Rightarrow> world \<Rightarrow> anx7688 \<times> world" where
  "anx7688_handle_current_update s w =
     (let pwr_mode = current_update_pwr_mode s;
          current_limit = current_update_limit s pwr_mode;
          s1 = s\<lparr>input_current_limit := current_limit\<rparr>;
          w1 = (if current_limit \<noteq> 0 then
                  (case power_supply_set_property POWER_SUPPLY_PROP_USB_BC_ENABLED 0 w of
                     (ret, w) \<Rightarrow>
                       case power_supply_set_property POWER_SUPPLY_PROP_INPUT_CURRENT_LIMIT
                              (current_limit * 1000) w of
                         (ret, w) \<Rightarrow> w)
                else
                  (case power_supply_get_property POWER_SUPPLY_PROP_USB_BC_ENABLED w of
                     (ret, intval, w) \<Rightarrow>
                       if ret \<noteq> 0 \<or> intval = 0 then
                         (case power_supply_set_property POWER_SUPPLY_PROP_INPUT_CURRENT_LIMIT
                                 (500 * 1000) w of
                            (ret, w) \<Rightarrow> w)
                       else w))
      in
      case power_supply_set_property POWER_SUPPLY_PROP_ONLINE 1 w1 of
        (ret, w2) \<Rightarrow> (s1, emit (Typec_set_pwr_opmode pwr_mode) w2))"

text \<open>
  The deadline check at the end of \<open>anx7688_work\<close>:
  \<open>if (deadline && ktime_after(ktime_get(), deadline)) { deadline = 0; update }\<close>.
\<close>

definition anx7688_work_current_update :: "anx7688 \<Rightarrow> world \<Rightarrow> anx7688 \<times> world" where
  "anx7688_work_current_update s w =
     (if current_update_deadline s \<noteq> 0 then
        (case ktime_get w of
           (now, w1) \<Rightarrow>
             if ktime_after now (current_update_deadline s)
             then anx7688_handle_current_update (s\<lparr>current_update_deadline := 0\<rparr>) w1
             else (s, w1))
      else (s, w))"

subsection \<open>Example states and worlds\<close>

text \<open>
  The driver state as \<open>anx7688_i2c_probe\<close> leaves it (the structure is zero-allocated),
  with one source and one sink capability, \<open>PDO_FIXED(5000, 500, PDO_FIXED_USB_COMM)\<close> and
  \<open>PDO_FIXED(5000, 3000, PDO_FIXED_USB_COMM)\<close>; the extcon device is at address 1.
\<close>

definition probed :: anx7688 where
  "probed =
     \<lparr>input_current_limit = 0,
      src_caps = [0x04019032, 0, 0, 0, 0, 0, 0, 0], n_src_caps = 1,
      snk_caps = [0x0401912C, 0, 0, 0, 0, 0, 0, 0], n_snk_caps = 1,
      flags = {},
      vbus_on = False, vconn_on = False, pd_capable = False,
      pd_current_limit = 0, current_update_deadline = 0,
      partner = 0, pwr_role = TYPEC_SINK, data_role = TYPEC_DEVICE,
      last_status = 0, last_cc_status = 0, last_dp_state = 0, last_bc_result = - 1,
      extcon = 1, last_extcon_state = - 1\<rparr>"

text \<open>A world in which nothing has been called yet, with the given scripts.\<close>

definition fresh_world :: "(nat \<Rightarrow> int) \<Rightarrow> (nat \<Rightarrow> u8 list) \<Rightarrow> (nat \<Rightarrow> int) \<Rightarrow> world" where
  "fresh_world rs bs vs = \<lparr>rets = rs, bufs = bs, vals = vs, ncalls = 0, trace = []\<rparr>"

text \<open>The world after the block read and the write that clears the receive register.\<close>

definition after_recv :: "world \<Rightarrow> world" where
  "after_recv w =
     w\<lparr>ncalls := Suc (Suc (ncalls w)),
       trace := trace w @ [I2c_read_block CLIENT_TCPC ANX7688_TCPC_REG_INTERFACE_RECV 32,
                           I2c_write_byte CLIENT_TCPC ANX7688_TCPC_REG_INTERFACE_RECV 0]\<rparr>"

text \<open>The calls of \<open>n\<close> rounds of the queue-drain loop that find the queue occupied.\<close>

definition poll_events :: "nat \<Rightarrow> event list" where
  "poll_events n =
     concat (replicate n [I2c_read_byte CLIENT_TCPC ANX7688_TCPC_REG_INTERFACE_SEND, Udelay 100])"

text \<open>
  The two nibbles of the cached CC status as \<open>anx7688_handle_current_update\<close> reads them,
  \<open>cc_status & 0xf\<close> and \<open>(cc_status >> 4) & 0xf\<close>, and the pair of the power mode and the
  current limit that it computes.
\<close>

definition cc_pin1 :: "anx7688 \<Rightarrow> u32" where
  "cc_pin1 s = (word_of_int (last_cc_status s) :: u32) AND 0xf"

definition cc_pin2 :: "anx7688 \<Rightarrow> u32" where
  "cc_pin2 s = drop_bit 4 (word_of_int (last_cc_status s) :: u32) AND 0xf"

definition current_update_resolved :: "anx7688 \<Rightarrow> int \<times> int" where
  "current_update_resolved s = (current_update_pwr_mode s, current_update_limit s (current_update_pwr_mode s))"

text \<open>
  The calls that \<open>anx7688_disconnect\<close> makes from state \<open>s\<close>, in order.  The property
  values of the power supply are in microamperes.
\<close>

definition disconnect_events :: "anx7688 \<Rightarrow> event list" where
  "disconnect_events s =
     (if extcon s \<noteq> 0 \<and> last_extcon_state s \<noteq> 0 then [Extcon_set_state_sync 0] else []) @
     (if vconn_on s then [Regulator_disable ANX7688_VCONN_INDEX] else []) @
     (if vbus_on s then [Regulator_disable ANX7688_VBUS_INDEX] else []) @
     [Gpiod_set_value GPIO_RESET 1, Msleep 5, Gpiod_set_value GPIO_ENABLE 0,
      Typec_unregister_partner (partner s),
      Typec_set_pwr_role TYPEC_SINK,
      Typec_set_data_role TYPEC_DEVICE,
      Typec_set_pwr_opmode TYPEC_PWR_MODE_USB,
      Typec_set_vconn_role TYPEC_SINK,
      Usb_role_switch_set_role USB_ROLE_NONE,
      Power_supply_set_property POWER_SUPPLY_PROP_INPUT_CURRENT_LIMIT (500 * 1000),
      Power_supply_set_property POWER_SUPPLY_PROP_ONLINE 0,
      Power_supply_set_property POWER_SUPPLY_PROP_USB_BC_ENABLED 1]"

text \<open>An example of a state with a partner attached and a PD contract.\<close>

definition attached :: anx7688 where
  "attached =
     probed\<lparr>flags := {ANX7688_F_POWERED, ANX7688_F_CONNECTED},
       vbus_on := True, vconn_on := True, pd_capable := True,
       pd_current_limit := 3000, current_update_deadline := 7500000000,
       partner := 4096, pwr_role := TYPEC_SOURCE, data_role := TYPEC_HOST,
       last_status := 0x2c, last_cc_status := 0x02, last_dp_state := 0x0300,
       last_extcon_state := 1, input_current_limit := 3000\<rparr>"

text \<open>
  Names for the calls of \<open>anx7688_connect\<close>: the rounds of the firmware poll that do not
  find the firmware loaded, the power-up sequence up to the enabling of VCONN, and the
  power-down sequence of \<open>anx7688_power_disable\<close>.
\<close>

definition fw_poll_events :: "nat \<Rightarrow> event list" where
  "fw_poll_events n =
     concat (replicate n [I2c_read_byte CLIENT ANX7688_REG_EEPROM_LOAD_STATUS0, Msleep 5])"

definition power_on_events :: "event list" where
  "power_on_events =
     [Msleep 10, Gpiod_set_value GPIO_RESET 1, Gpiod_set_value GPIO_ENABLE 1, Msleep 10,
      Gpiod_set_value GPIO_RESET 0, Udelay 2, Regulator_enable ANX7688_VCONN_INDEX]"


text \<open>
  \<open>extends w w'\<close>: the world \<open>w'\<close> is \<open>w\<close> after some more calls; the scripts are the
  same.
\<close>

definition extends :: "world \<Rightarrow> world \<Rightarrow> bool" where
  "extends w w' = (rets w' = rets w \<and> bufs w' = bufs w \<and> vals w' = vals w \<and>
     ncalls w \<le> ncalls w' \<and> (\<exists>t. trace w' = trace w @ t))"




text \<open>
  The driver state after \<open>anx7688_power_enable\<close> in \<open>anx7688_connect\<close>, the world after
  VCONN was enabled, and the world after the firmware poll found the firmware loaded in
  round \<open>j\<close> (counted from 0).
\<close>

definition connect_powered :: "anx7688 \<Rightarrow> anx7688" where
  "connect_powered s =
     (set_bit_flags ANX7688_F_POWERED
        (s\<lparr>last_status := - 1, last_cc_status := - 1, last_dp_state := - 1\<rparr>))"

definition after_power_on :: "world \<Rightarrow> world" where
  "after_power_on w = w\<lparr>ncalls := Suc (ncalls w), trace := trace w @ power_on_events\<rparr>"

definition after_fw_loaded :: "nat \<Rightarrow> world \<Rightarrow> world" where
  "after_fw_loaded j w =
     w\<lparr>ncalls := ncalls w + j + 2,
       trace := trace w @ power_on_events @ fw_poll_events j @
         [I2c_read_byte CLIENT ANX7688_REG_EEPROM_LOAD_STATUS0]\<rparr>"

text \<open>
  Scripts for example runs of \<open>anx7688_connect\<close>: everything succeeds, with the firmware
  loaded at the first poll; enabling VCONN fails; the firmware never reports loaded; the
  read of the firmware version fails.
\<close>

definition script_ok :: "nat \<Rightarrow> int" where
  "script_ok n =
     (if n = 1 then 1 else if n = 2 then 2 else if n = 25 then 4096
      else if n = 26 then 7000000000 else 0)"




definition no_bufs :: "nat \<Rightarrow> u8 list" where
  "no_bufs n = []"

definition no_vals :: "nat \<Rightarrow> int" where
  "no_vals n = 0"

text \<open>
  A received block that holds a well-formed source-capability report with one PDO
  (\<open>0x0a01912c\<close>), and scripts in which the block read succeeds and every later call
  fails with \<open>-EIO\<close>.
\<close>

definition src_cap_frame :: "u8 list" where
  "src_cap_frame = [0x05, 0x00, 0x2c, 0x91, 0x01, 0x0a, 0x33] @ replicate 25 0"

definition script_recv_io_errors :: "nat \<Rightarrow> int" where
  "script_recv_io_errors n = (if n = 0 then 32 else - EIO)"

definition bufs_src_cap :: "nat \<Rightarrow> u8 list" where
  "bufs_src_cap n = src_cap_frame"

section \<open>Properties\<close>

subsection \<open>Byte sums\<close>

lemma fold_sub_u8: "fold (\<lambda>b c. c - b) xs (a :: u8) = a - sum_list xs"
  by (induction xs arbitrary: a) (simp_all add: algebra_simps)

lemma fold_add_u8: "fold (\<lambda>b c. c + b) xs (a :: u8) = a + sum_list xs"
  by (induction xs arbitrary: a) (simp_all add: algebra_simps)

lemma unat_sum_list_u8: "unat (sum_list xs :: u8) = sum_list (map unat xs) mod 256"
proof (induction xs)
  case Nil
  show ?case by simp
next
  case (Cons x xs)
  have "unat (x + sum_list xs) = (unat x + unat (sum_list xs)) mod 256"
    by (simp add: unat_word_ariths)
  also have "\<dots> = (unat x + sum_list (map unat xs) mod 256) mod 256"
    by (simp only: Cons.IH)
  also have "\<dots> = (unat x + sum_list (map unat xs)) mod 256"
    by (rule mod_add_right_eq)
  finally show ?case by simp
qed

lemma byte_sum_zero_iff: "(sum_list (map unat xs) mod 256 = 0) = (sum_list xs = (0 :: u8))"
proof -
  have "(sum_list xs = (0 :: u8)) = (unat (sum_list xs) = 0)"
    by (simp add: unat_eq_0)
  then show ?thesis by (simp add: unat_sum_list_u8)
qed

lemma sum_list_ocm_pkt: "sum_list (ocm_pkt cmd data) = 0"
  by (simp add: ocm_pkt_def Let_def fold_sub_u8)

lemma ocm_pkt_layout:
  "length (ocm_pkt cmd data) = length data + 3"
  "ocm_pkt cmd data ! 0 = of_nat (length data + 1)"
  "ocm_pkt cmd data ! 1 = of_int cmd"
  "take (length data) (drop 2 (ocm_pkt cmd data)) = data"
  by (simp_all add: ocm_pkt_def Let_def)

subsection \<open>The send queue\<close>

lemmas io_defs =
  anx7688_reg_read_def anx7688_reg_write_def anx7688_tcpc_reg_read_def anx7688_tcpc_reg_write_def
  i2c_smbus_read_byte_data_def i2c_smbus_write_byte_data_def
  i2c_smbus_read_i2c_block_data_def i2c_smbus_write_i2c_block_data_def
  regulator_enable_def regulator_disable_def
  power_supply_set_property_def power_supply_get_property_def ktime_get_def
  msleep_def udelay_def gpiod_set_value_def call_def emit_def next_ret_def

lemma ocm_wait_flush_trace: "\<exists>t. trace (snd (ocm_wait_flush n w)) = trace w @ t"
proof (induction n arbitrary: w)
  case 0
  show ?case by simp
next
  case (Suc n)
  let ?w1 = "udelay 100 (snd (anx7688_tcpc_reg_read ANX7688_TCPC_REG_INTERFACE_SEND w))"
  obtain t where "trace (snd (ocm_wait_flush n ?w1)) = trace ?w1 @ t"
    using Suc.IH by blast
  then show ?case
    by (simp add: io_defs split: prod.splits)
qed

lemma send_transmits_pkt:
  assumes "length data \<le> 29" and "next_ret w 0 = 0"
  shows "I2c_write_block CLIENT_TCPC ANX7688_TCPC_REG_INTERFACE_SEND (length data + 3)
           (ocm_pkt cmd data) \<in> set (trace (snd (anx7688_send_ocm_message cmd data w)))"
proof -
  let ?w2 = "w\<lparr>ncalls := Suc (Suc (ncalls w)),
               trace := trace w @ [I2c_read_byte CLIENT_TCPC ANX7688_TCPC_REG_INTERFACE_SEND,
                 I2c_write_block CLIENT_TCPC ANX7688_TCPC_REG_INTERFACE_SEND (length data + 3)
                   (ocm_pkt cmd data)]\<rparr>"
  have "anx7688_send_ocm_message cmd data w = ocm_wait_flush 300 ?w2"
    using assms by (simp add: anx7688_send_ocm_message_def io_defs)
  moreover obtain t where "trace (snd (ocm_wait_flush 300 ?w2)) = trace ?w2 @ t"
    using ocm_wait_flush_trace by blast
  ultimately show ?thesis by simp
qed

subsection \<open>Receiving\<close>

lemma receive_msg_valid:
  assumes "0 \<le> next_ret w 0"
    and "pkt = bufs w (ncalls w)"
    and "1 \<le> unat (pkt ! 0)" and "unat (pkt ! 0) \<le> 30"
    and "sum_list (map unat (take (unat (pkt ! 0) + 2) pkt)) mod 256 = 0"
  shows "anx7688_receive_msg s w =
     (case anx7688_handle_pd_message s (after_recv w) (pkt ! 1) (drop 2 pkt) (unat (pkt ! 0) - 1) of
        (r, s', w') \<Rightarrow> (0, s', w'))"
proof -
  have nz: "pkt ! 0 \<noteq> 0" using assms(3) by (auto simp: unat_eq_0)
  have cs: "sum_list (take (unat (pkt ! 0) + 2) pkt) = 0"
    using assms(5) by (simp only: byte_sum_zero_iff)
  show ?thesis
    using assms(1,4) nz cs assms(2)[symmetric]
    by (simp add: anx7688_receive_msg_def io_defs after_recv_def fold_add_u8 Let_def
        split: prod.splits)
qed

text \<open>
  C1.  For every command and every payload of at most 29 bytes, the packet that
  \<open>anx7688_send_ocm_message\<close> builds and, when the send queue reads empty, writes to the
  send register has \<open>payload length + 1\<close> in byte 0, the command in byte 1, then the
  payload and one more byte, and the sum of all its bytes is 0 modulo 256.  And for every
  32-byte block read by \<open>anx7688_receive_msg\<close> whose length byte is between 1 and 30 and
  whose first \<open>length + 2\<close> bytes sum to 0 modulo 256, the function hands the message to
  the handler and returns 0.
\<close>

theorem ocm_checksum_property:
  "(length data \<le> 29 \<longrightarrow>
      length (ocm_pkt cmd data) = length data + 3 \<and>
      unat (ocm_pkt cmd data ! 0) = length data + 1 \<and>
      ocm_pkt cmd data ! 1 = of_int cmd \<and>
      take (length data) (drop 2 (ocm_pkt cmd data)) = data \<and>
      sum_list (map unat (ocm_pkt cmd data)) mod 256 = 0 \<and>
      (next_ret w 0 = 0 \<longrightarrow>
         I2c_write_block CLIENT_TCPC ANX7688_TCPC_REG_INTERFACE_SEND (length data + 3)
           (ocm_pkt cmd data) \<in> set (trace (snd (anx7688_send_ocm_message cmd data w))))) \<and>
   (0 \<le> next_ret w' 0 \<and> pkt = bufs w' (ncalls w') \<and> length pkt = 32 \<and>
    1 \<le> unat (pkt ! 0) \<and> unat (pkt ! 0) \<le> 30 \<and>
    sum_list (map unat (take (unat (pkt ! 0) + 2) pkt)) mod 256 = 0 \<longrightarrow>
      fst (anx7688_receive_msg s w') = 0 \<and>
      anx7688_receive_msg s w' =
        (case anx7688_handle_pd_message s (after_recv w') (pkt ! 1) (drop 2 pkt)
                (unat (pkt ! 0) - 1) of
           (r, s', w'') \<Rightarrow> (0, s', w'')))"
proof (intro conjI impI)
  assume len: "length data \<le> 29"
  show "length (ocm_pkt cmd data) = length data + 3"
    by (rule ocm_pkt_layout)
  have "unat (of_nat (length data + 1) :: u8) = (length data + 1) mod 2 ^ LENGTH(8)"
    by (rule unat_of_nat)
  with len have "unat (of_nat (length data + 1) :: u8) = length data + 1"
    by simp
  then show "unat (ocm_pkt cmd data ! 0) = length data + 1"
    by (simp only: ocm_pkt_layout)
  show "ocm_pkt cmd data ! 1 = of_int cmd"
    by (rule ocm_pkt_layout)
  show "take (length data) (drop 2 (ocm_pkt cmd data)) = data"
    by (rule ocm_pkt_layout)
  show "sum_list (map unat (ocm_pkt cmd data)) mod 256 = 0"
    by (simp only: byte_sum_zero_iff sum_list_ocm_pkt)
  assume "next_ret w 0 = 0"
  with len show "I2c_write_block CLIENT_TCPC ANX7688_TCPC_REG_INTERFACE_SEND (length data + 3)
           (ocm_pkt cmd data) \<in> set (trace (snd (anx7688_send_ocm_message cmd data w)))"
    by (rule send_transmits_pkt)
next
  assume a: "0 \<le> next_ret w' 0 \<and> pkt = bufs w' (ncalls w') \<and> length pkt = 32 \<and>
    1 \<le> unat (pkt ! 0) \<and> unat (pkt ! 0) \<le> 30 \<and>
    sum_list (map unat (take (unat (pkt ! 0) + 2) pkt)) mod 256 = 0"
  then have eq: "anx7688_receive_msg s w' =
        (case anx7688_handle_pd_message s (after_recv w') (pkt ! 1) (drop 2 pkt)
                (unat (pkt ! 0) - 1) of
           (r, s', w'') \<Rightarrow> (0, s', w''))"
    by (intro receive_msg_valid) blast+
  show "fst (anx7688_receive_msg s w') = 0"
    by (simp add: eq split: prod.splits)
  show "anx7688_receive_msg s w' =
        (case anx7688_handle_pd_message s (after_recv w') (pkt ! 1) (drop 2 pkt)
                (unat (pkt ! 0) - 1) of
           (r, s', w'') \<Rightarrow> (0, s', w''))"
    by (rule eq)
qed

theorem ocm_checksum_property_witness:
  "length svid \<le> 29 \<and>
   next_ret (fresh_world (\<lambda>n. 0) (\<lambda>n. []) (\<lambda>n. 0)) 0 = 0 \<and>
   ocm_pkt 3 svid = [5, 3, 0x00, 0x00, 0x01, 0xff, 0xf8] \<and>
   sum_list (map unat (ocm_pkt 3 svid)) mod 256 = 0 \<and>
   I2c_write_block CLIENT_TCPC ANX7688_TCPC_REG_INTERFACE_SEND 7 (ocm_pkt 3 svid)
     \<in> set (trace (snd (anx7688_send_ocm_message 3 svid
                            (fresh_world (\<lambda>n. 0) (\<lambda>n. []) (\<lambda>n. 0))))) \<and>
   0 \<le> next_ret (fresh_world (\<lambda>n. 32) (\<lambda>n. [1, 0xf1, 0x0e] @ replicate 29 0) (\<lambda>n. 0)) 0 \<and>
   length ([1, 0xf1, 0x0e] @ replicate 29 (0 :: u8)) = 32 \<and>
   fst (anx7688_receive_msg probed
          (fresh_world (\<lambda>n. 32) (\<lambda>n. [1, 0xf1, 0x0e] @ replicate 29 0) (\<lambda>n. 0))) = 0"
  using ocm_checksum_property [of svid 3 "fresh_world (\<lambda>n. 0) (\<lambda>n. []) (\<lambda>n. 0)"
      "fresh_world (\<lambda>n. 32) (\<lambda>n. [1, 0xf1, 0x0e] @ replicate 29 0) (\<lambda>n. 0)"
      "[1, 0xf1, 0x0e] @ replicate 29 0" probed]
  by (simp add: svid_def fresh_world_def next_ret_def ocm_pkt_def split: prod.splits)

lemma poll_events_Suc: "poll_events (Suc n) = [I2c_read_byte CLIENT_TCPC ANX7688_TCPC_REG_INTERFACE_SEND, Udelay 100] @ poll_events n"
  by (simp add: poll_events_def)

lemma ocm_wait_flush_timeout:
  "\<forall>k<n. 0 < rets w (ncalls w + k) \<Longrightarrow>
   ocm_wait_flush n w =
     (- ETIMEDOUT, w\<lparr>ncalls := ncalls w + n, trace := trace w @ poll_events n\<rparr>)"
proof (induction n arbitrary: w)
  case 0
  show ?case by (simp add: poll_events_def)
next
  case (Suc n)
  let ?w1 = "w\<lparr>ncalls := Suc (ncalls w),
               trace := trace w @ [I2c_read_byte CLIENT_TCPC ANX7688_TCPC_REG_INTERFACE_SEND, Udelay 100]\<rparr>"
  have pos: "0 < rets w (ncalls w)" using Suc.prems by force
  have "\<forall>k<n. 0 < rets ?w1 (ncalls ?w1 + k)"
    using Suc.prems by (auto dest: spec [where x = "Suc k" for k])
  then have "ocm_wait_flush n ?w1 =
     (- ETIMEDOUT, ?w1\<lparr>ncalls := ncalls ?w1 + n, trace := trace ?w1 @ poll_events n\<rparr>)"
    by (rule Suc.IH)
  with pos show ?case
    by (simp add: io_defs poll_events_Suc)
qed

lemma ocm_wait_flush_exit:
  "j < n \<Longrightarrow> \<forall>k<j. 0 < rets w (ncalls w + k) \<Longrightarrow> rets w (ncalls w + j) \<le> 0 \<Longrightarrow>
   ocm_wait_flush n w =
     (rets w (ncalls w + j),
      w\<lparr>ncalls := ncalls w + j + 1,
        trace := trace w @ poll_events j @ [I2c_read_byte CLIENT_TCPC ANX7688_TCPC_REG_INTERFACE_SEND]\<rparr>)"
proof (induction n arbitrary: w j)
  case 0
  then show ?case by simp
next
  case (Suc n)
  show ?case
  proof (cases j)
    case 0
    with Suc.prems show ?thesis by (simp add: io_defs poll_events_def)
  next
    case (Suc i)
    let ?w1 = "w\<lparr>ncalls := Suc (ncalls w),
               trace := trace w @ [I2c_read_byte CLIENT_TCPC ANX7688_TCPC_REG_INTERFACE_SEND, Udelay 100]\<rparr>"
    have pos: "0 < rets w (ncalls w)" using Suc.prems(2) Suc by force
    have a: "i < n" using Suc.prems(1) Suc by simp
    have b: "\<forall>k<i. 0 < rets ?w1 (ncalls ?w1 + k)"
      using Suc.prems(2) Suc by (auto dest: spec [where x = "Suc k" for k])
    have c: "rets ?w1 (ncalls ?w1 + i) \<le> 0" using Suc.prems(3) Suc by simp
    have "ocm_wait_flush n ?w1 =
     (rets ?w1 (ncalls ?w1 + i),
      ?w1\<lparr>ncalls := ncalls ?w1 + i + 1,
        trace := trace ?w1 @ poll_events i @ [I2c_read_byte CLIENT_TCPC ANX7688_TCPC_REG_INTERFACE_SEND]\<rparr>)"
      using a b c by (rule Suc.IH)
    with pos Suc show ?thesis
      by (simp add: io_defs poll_events_Suc)
  qed
qed

text \<open>
  C8.  With a payload of at most 29 bytes: when the first read of the send register
  returns anything but 0, \<open>anx7688_send_ocm_message\<close> returns \<open>-EBUSY\<close> and has made no
  other call, so nothing was transmitted.  When that read returns 0, the packet is
  written once; if each of the 300 reads that follow finds the register positive, the
  function has read it 300 times with a 100 microsecond delay after each read, made no
  second write, and returns \<open>-ETIMEDOUT\<close>.
\<close>

theorem send_busy_and_timeout:
  "(length data \<le> 29 \<and> next_ret w 0 \<noteq> 0 \<longrightarrow>
      anx7688_send_ocm_message cmd data w =
        (- EBUSY,
         w\<lparr>ncalls := ncalls w + 1,
           trace := trace w @ [I2c_read_byte CLIENT_TCPC ANX7688_TCPC_REG_INTERFACE_SEND]\<rparr>)) \<and>
   (length data \<le> 29 \<and> next_ret w 0 = 0 \<and> (\<forall>k<300. 0 < next_ret w (2 + k)) \<longrightarrow>
      anx7688_send_ocm_message cmd data w =
        (- ETIMEDOUT,
         w\<lparr>ncalls := ncalls w + 302,
           trace := trace w @
             [I2c_read_byte CLIENT_TCPC ANX7688_TCPC_REG_INTERFACE_SEND,
              I2c_write_block CLIENT_TCPC ANX7688_TCPC_REG_INTERFACE_SEND (length data + 3)
                (ocm_pkt cmd data)] @ poll_events 300\<rparr>))"
proof (intro conjI impI)
  assume "length data \<le> 29 \<and> next_ret w 0 \<noteq> 0"
  then show "anx7688_send_ocm_message cmd data w =
        (- EBUSY,
         w\<lparr>ncalls := ncalls w + 1,
           trace := trace w @ [I2c_read_byte CLIENT_TCPC ANX7688_TCPC_REG_INTERFACE_SEND]\<rparr>)"
    by (simp add: anx7688_send_ocm_message_def io_defs)
next
  assume a: "length data \<le> 29 \<and> next_ret w 0 = 0 \<and> (\<forall>k<300. 0 < next_ret w (2 + k))"
  let ?w2 = "w\<lparr>ncalls := Suc (Suc (ncalls w)),
               trace := trace w @ [I2c_read_byte CLIENT_TCPC ANX7688_TCPC_REG_INTERFACE_SEND,
                 I2c_write_block CLIENT_TCPC ANX7688_TCPC_REG_INTERFACE_SEND (length data + 3)
                   (ocm_pkt cmd data)]\<rparr>"
  have eq: "anx7688_send_ocm_message cmd data w = ocm_wait_flush 300 ?w2"
    using a by (simp add: anx7688_send_ocm_message_def io_defs)
  have "\<forall>k<300. 0 < rets ?w2 (ncalls ?w2 + k)"
    using a by (simp add: next_ret_def)
  then have "ocm_wait_flush 300 ?w2 =
     (- ETIMEDOUT, ?w2\<lparr>ncalls := ncalls ?w2 + 300, trace := trace ?w2 @ poll_events 300\<rparr>)"
    by (rule ocm_wait_flush_timeout)
  with eq show "anx7688_send_ocm_message cmd data w =
        (- ETIMEDOUT,
         w\<lparr>ncalls := ncalls w + 302,
           trace := trace w @
             [I2c_read_byte CLIENT_TCPC ANX7688_TCPC_REG_INTERFACE_SEND,
              I2c_write_block CLIENT_TCPC ANX7688_TCPC_REG_INTERFACE_SEND (length data + 3)
                (ocm_pkt cmd data)] @ poll_events 300\<rparr>)"
    by simp
qed

theorem send_busy_and_timeout_witness:
  "length svid \<le> 29 \<and>
   next_ret (fresh_world (\<lambda>n. 1) (\<lambda>n. []) (\<lambda>n. 0)) 0 \<noteq> 0 \<and>
   anx7688_send_ocm_message 3 svid (fresh_world (\<lambda>n. 1) (\<lambda>n. []) (\<lambda>n. 0)) =
     (- EBUSY,
      \<lparr>rets = \<lambda>n. 1, bufs = \<lambda>n. [], vals = \<lambda>n. 0, ncalls = 1,
       trace = [I2c_read_byte CLIENT_TCPC ANX7688_TCPC_REG_INTERFACE_SEND]\<rparr>) \<and>
   next_ret (fresh_world (\<lambda>n. if n = 0 then 0 else 1) (\<lambda>n. []) (\<lambda>n. 0)) 0 = 0 \<and>
   anx7688_send_ocm_message 3 svid (fresh_world (\<lambda>n. if n = 0 then 0 else 1) (\<lambda>n. []) (\<lambda>n. 0)) =
     (- ETIMEDOUT,
      \<lparr>rets = \<lambda>n. if n = 0 then 0 else 1, bufs = \<lambda>n. [], vals = \<lambda>n. 0, ncalls = 302,
       trace = [I2c_read_byte CLIENT_TCPC ANX7688_TCPC_REG_INTERFACE_SEND,
                I2c_write_block CLIENT_TCPC ANX7688_TCPC_REG_INTERFACE_SEND 7
                  [5, 3, 0x00, 0x00, 0x01, 0xff, 0xf8]] @ poll_events 300\<rparr>)"
  using send_busy_and_timeout [of svid "fresh_world (\<lambda>n. 1) (\<lambda>n. []) (\<lambda>n. 0)" 3]
    send_busy_and_timeout [of svid "fresh_world (\<lambda>n. if n = 0 then 0 else 1) (\<lambda>n. []) (\<lambda>n. 0)" 3]
  by (simp add: svid_def fresh_world_def next_ret_def ocm_pkt_def)

subsection \<open>The PD message interpreter\<close>

text \<open>
  C5.  A source-capability report whose length is a multiple of 4, received while the
  two negotiated-result registers read back a positive maximum voltage and a maximum
  power that is not an error: the handler returns 0, has set \<open>pd_capable\<close>, has set
  \<open>pd_current_limit\<close> to \<open>max_power_raw * 5000 / max_voltage_raw\<close>, and has set the
  current-limit deadline to the time \<open>ktime_get\<close> returned plus 500 ms.  It has read the
  two registers and the clock and called nothing else.
\<close>

theorem src_cap_current_limit:
  assumes "len mod 4 = 0" and "0 < next_ret w 0" and "0 \<le> next_ret w 1"
  shows "anx7688_handle_pd_message s w ANX7688_OCM_MSG_PWR_SRC_CAP msg len =
     (0,
      s\<lparr>pd_capable := True,
        pd_current_limit := next_ret w 1 * 5000 div next_ret w 0,
        current_update_deadline := next_ret w 2 + 500 * 1000000\<rparr>,
      w\<lparr>ncalls := ncalls w + 3,
        trace := trace w @
          [I2c_read_byte CLIENT ANX7688_REG_MAX_VOLTAGE_STATUS,
           I2c_read_byte CLIENT ANX7688_REG_MAX_POWER_STATUS,
           Ktime_get]\<rparr>)"
  using assms
  by (simp add: anx7688_handle_pd_message_def io_defs ktime_add_ms_def Let_def)

theorem src_cap_current_limit_witness:
  "(8 :: nat) mod 4 = 0 \<and>
   0 < next_ret (fresh_world (\<lambda>n. if n = 0 then 50 else if n = 1 then 30 else 7000000000) (\<lambda>n. []) (\<lambda>n. 0)) 0 \<and>
   0 \<le> next_ret (fresh_world (\<lambda>n. if n = 0 then 50 else if n = 1 then 30 else 7000000000) (\<lambda>n. []) (\<lambda>n. 0)) 1 \<and>
   (case anx7688_handle_pd_message probed
           (fresh_world (\<lambda>n. if n = 0 then 50 else if n = 1 then 30 else 7000000000) (\<lambda>n. []) (\<lambda>n. 0))
           ANX7688_OCM_MSG_PWR_SRC_CAP [0x2c, 0x91, 0x01, 0x0a, 0x2c, 0xd1, 0x02, 0x00] 8 of
      (ret, s', w') \<Rightarrow>
        ret = 0 \<and> pd_capable s' \<and> pd_current_limit s' = 3000 \<and>
        current_update_deadline s' = 7500000000)"
  using src_cap_current_limit [of 8
      "fresh_world (\<lambda>n. if n = 0 then 50 else if n = 1 then 30 else 7000000000) (\<lambda>n. []) (\<lambda>n. 0)"
      probed "[0x2c, 0x91, 0x01, 0x0a, 0x2c, 0xd1, 0x02, 0x00]"]
  by (simp add: fresh_world_def next_ret_def)

text \<open>
  C10.  When the maximum-voltage register reads 0, the handler of a source-capability
  report returns \<open>-EINVAL\<close> right after that read: the maximum-power register is not read,
  \<open>pd_current_limit\<close> and the deadline keep their values.  And for every message,
  \<open>pd_current_limit\<close> changes only in a source-capability report for which the divisor read
  back is positive.
\<close>

theorem src_cap_zero_voltage:
  "(len mod 4 = 0 \<and> next_ret w 0 = 0 \<longrightarrow>
      anx7688_handle_pd_message s w ANX7688_OCM_MSG_PWR_SRC_CAP msg len =
        (- EINVAL,
         s\<lparr>pd_capable := True\<rparr>,
         w\<lparr>ncalls := ncalls w + 1,
           trace := trace w @ [I2c_read_byte CLIENT ANX7688_REG_MAX_VOLTAGE_STATUS]\<rparr>)) \<and>
   (pd_current_limit (fst (snd (anx7688_handle_pd_message s w cmd msg len))) \<noteq> pd_current_limit s \<longrightarrow>
      cmd = ANX7688_OCM_MSG_PWR_SRC_CAP \<and> 0 < next_ret w 0 \<and> 0 \<le> next_ret w 1 \<and>
      pd_current_limit (fst (snd (anx7688_handle_pd_message s w cmd msg len))) =
        next_ret w 1 * 5000 div next_ret w 0)"
  by (simp add: anx7688_handle_pd_message_def io_defs ktime_add_ms_def Let_def)

theorem src_cap_zero_voltage_witness:
  "(8 :: nat) mod 4 = 0 \<and>
   next_ret (fresh_world (\<lambda>n. if n = 0 then 0 else 30) (\<lambda>n. []) (\<lambda>n. 0)) 0 = 0 \<and>
   (case anx7688_handle_pd_message (probed\<lparr>pd_current_limit := 1500\<rparr>)
           (fresh_world (\<lambda>n. if n = 0 then 0 else 30) (\<lambda>n. []) (\<lambda>n. 0))
           ANX7688_OCM_MSG_PWR_SRC_CAP [0x2c, 0x91, 0x01, 0x0a, 0x2c, 0xd1, 0x02, 0x00] 8 of
      (ret, s', w') \<Rightarrow>
        ret = - EINVAL \<and> pd_current_limit s' = 1500 \<and>
        trace w' = [I2c_read_byte CLIENT ANX7688_REG_MAX_VOLTAGE_STATUS]) \<and>
   pd_current_limit (fst (snd (anx7688_handle_pd_message probed
      (fresh_world (\<lambda>n. if n = 0 then 50 else 30) (\<lambda>n. []) (\<lambda>n. 0))
      ANX7688_OCM_MSG_PWR_SRC_CAP [] 0))) \<noteq> pd_current_limit probed \<and>
   0 < next_ret (fresh_world (\<lambda>n. if n = 0 then 50 else 30) (\<lambda>n. []) (\<lambda>n. 0)) 0"
  using src_cap_zero_voltage [where len = 8 and cmd = ANX7688_OCM_MSG_PWR_SRC_CAP
      and w = "fresh_world (\<lambda>n. if n = 0 then 0 else 30) (\<lambda>n. []) (\<lambda>n. 0)"
      and s = "probed\<lparr>pd_current_limit := 1500\<rparr>"
      and msg = "[0x2c, 0x91, 0x01, 0x0a, 0x2c, 0xd1, 0x02, 0x00]"]
    src_cap_zero_voltage [where len = 0 and cmd = ANX7688_OCM_MSG_PWR_SRC_CAP
      and w = "fresh_world (\<lambda>n. if n = 0 then 50 else 30) (\<lambda>n. []) (\<lambda>n. 0)"
      and s = probed and msg = "[]"]
  by (simp add: fresh_world_def next_ret_def probed_def anx7688_handle_pd_message_def io_defs
      ktime_add_ms_def)

text \<open>
  C6.  A Hard-Reset message while \<open>pd_capable\<close> is set: the handler sets the ONLINE
  property of the input supply to 0, sets the deadline to the time \<open>ktime_get\<close> returned
  plus 3000 ms, and calls nothing else.  The deadline check of \<open>anx7688_work\<close> on the
  resulting state leaves it unchanged as long as the clock is not past that deadline, and
  runs the current-limit update once it is.  While \<open>pd_capable\<close> is clear, the handler
  changes neither the state nor the world.
\<close>

theorem hard_reset_deadline:
  "(pd_capable s \<longrightarrow>
      anx7688_handle_pd_message s w ANX7688_OCM_MSG_HARD_RST msg len =
        (0,
         s\<lparr>current_update_deadline := next_ret w 1 + 3000 * 1000000\<rparr>,
         w\<lparr>ncalls := ncalls w + 2,
           trace := trace w @ [Power_supply_set_property POWER_SUPPLY_PROP_ONLINE 0, Ktime_get]\<rparr>)) \<and>
   (pd_capable s \<and> 0 \<le> next_ret w 1 \<and> next_ret w2 0 \<le> next_ret w 1 + 3000 * 1000000 \<longrightarrow>
      anx7688_work_current_update
          (s\<lparr>current_update_deadline := next_ret w 1 + 3000 * 1000000\<rparr>) w2 =
        (s\<lparr>current_update_deadline := next_ret w 1 + 3000 * 1000000\<rparr>,
         w2\<lparr>ncalls := ncalls w2 + 1, trace := trace w2 @ [Ktime_get]\<rparr>)) \<and>
   (pd_capable s \<and> 0 \<le> next_ret w 1 \<and> next_ret w 1 + 3000 * 1000000 < next_ret w2 0 \<longrightarrow>
      anx7688_work_current_update
          (s\<lparr>current_update_deadline := next_ret w 1 + 3000 * 1000000\<rparr>) w2 =
        anx7688_handle_current_update (s\<lparr>current_update_deadline := 0\<rparr>)
          (w2\<lparr>ncalls := ncalls w2 + 1, trace := trace w2 @ [Ktime_get]\<rparr>)) \<and>
   (\<not> pd_capable s \<longrightarrow>
      anx7688_handle_pd_message s w ANX7688_OCM_MSG_HARD_RST msg len = (0, s, w))"
  by (simp add: anx7688_handle_pd_message_def anx7688_work_current_update_def io_defs
      ktime_add_ms_def ktime_after_def)

theorem hard_reset_deadline_witness:
  "pd_capable (probed\<lparr>pd_capable := True\<rparr>) \<and>
   0 \<le> next_ret (fresh_world (\<lambda>n. 7000000000) (\<lambda>n. []) (\<lambda>n. 0)) 1 \<and>
   anx7688_handle_pd_message (probed\<lparr>pd_capable := True\<rparr>)
       (fresh_world (\<lambda>n. 7000000000) (\<lambda>n. []) (\<lambda>n. 0)) ANX7688_OCM_MSG_HARD_RST [] 0 =
     (0,
      probed\<lparr>pd_capable := True, current_update_deadline := 10000000000\<rparr>,
      \<lparr>rets = \<lambda>n. 7000000000, bufs = \<lambda>n. [], vals = \<lambda>n. 0, ncalls = 2,
       trace = [Power_supply_set_property POWER_SUPPLY_PROP_ONLINE 0, Ktime_get]\<rparr>) \<and>
   next_ret (fresh_world (\<lambda>n. 8000000000) (\<lambda>n. []) (\<lambda>n. 0)) 0 \<le> 10000000000 \<and>
   anx7688_work_current_update
       (probed\<lparr>pd_capable := True, current_update_deadline := 10000000000\<rparr>)
       (fresh_world (\<lambda>n. 8000000000) (\<lambda>n. []) (\<lambda>n. 0)) =
     (probed\<lparr>pd_capable := True, current_update_deadline := 10000000000\<rparr>,
      \<lparr>rets = \<lambda>n. 8000000000, bufs = \<lambda>n. [], vals = \<lambda>n. 0, ncalls = 1, trace = [Ktime_get]\<rparr>) \<and>
   10000000000 < next_ret (fresh_world (\<lambda>n. 10000000001) (\<lambda>n. []) (\<lambda>n. 0)) 0 \<and>
   anx7688_work_current_update
       (probed\<lparr>pd_capable := True, current_update_deadline := 10000000000\<rparr>)
       (fresh_world (\<lambda>n. 10000000001) (\<lambda>n. []) (\<lambda>n. 0)) =
     anx7688_handle_current_update (probed\<lparr>pd_capable := True\<rparr>)
       \<lparr>rets = \<lambda>n. 10000000001, bufs = \<lambda>n. [], vals = \<lambda>n. 0, ncalls = 1, trace = [Ktime_get]\<rparr> \<and>
   \<not> pd_capable probed \<and>
   anx7688_handle_pd_message probed (fresh_world (\<lambda>n. 7000000000) (\<lambda>n. []) (\<lambda>n. 0))
       ANX7688_OCM_MSG_HARD_RST [] 0 =
     (0, probed, fresh_world (\<lambda>n. 7000000000) (\<lambda>n. []) (\<lambda>n. 0))"
  using
    hard_reset_deadline [where s = "probed\<lparr>pd_capable := True\<rparr>"
      and w = "fresh_world (\<lambda>n. 7000000000) (\<lambda>n. []) (\<lambda>n. 0)"
      and ?w2.0 = "fresh_world (\<lambda>n. 8000000000) (\<lambda>n. []) (\<lambda>n. 0)" and msg = "[]" and len = 0]
    hard_reset_deadline [where s = "probed\<lparr>pd_capable := True\<rparr>"
      and w = "fresh_world (\<lambda>n. 7000000000) (\<lambda>n. []) (\<lambda>n. 0)"
      and ?w2.0 = "fresh_world (\<lambda>n. 10000000001) (\<lambda>n. []) (\<lambda>n. 0)" and msg = "[]" and len = 0]
    hard_reset_deadline [where s = probed
      and w = "fresh_world (\<lambda>n. 7000000000) (\<lambda>n. []) (\<lambda>n. 0)"
      and ?w2.0 = "fresh_world (\<lambda>n. 8000000000) (\<lambda>n. []) (\<lambda>n. 0)" and msg = "[]" and len = 0]
  by (simp add: fresh_world_def next_ret_def probed_def)

subsection \<open>Malformed frames\<close>

text \<open>
  C7.  For every 32-byte block whose length byte is 0 or more than 30, or whose first
  \<open>length + 2\<close> bytes do not sum to 0 modulo 256, \<open>anx7688_receive_msg\<close> returns a
  negative value and the driver state it returns is the one it was given; when the block
  read itself succeeded the value is \<open>-EINVAL\<close>, and the only calls made are the block
  read and the write that clears the receive register.
\<close>

theorem receive_malformed:
  assumes "pkt = bufs w (ncalls w)" and "length pkt = 32"
    and "pkt ! 0 = 0 \<or> 30 < unat (pkt ! 0) \<or>
         sum_list (map unat (take (unat (pkt ! 0) + 2) pkt)) mod 256 \<noteq> 0"
  shows "fst (anx7688_receive_msg s w) < 0 \<and>
         fst (snd (anx7688_receive_msg s w)) = s \<and>
         (0 \<le> next_ret w 0 \<longrightarrow> anx7688_receive_msg s w = (- EINVAL, s, after_recv w))"
proof -
  have bad: "pkt ! 0 = 0 \<or> 30 < unat (pkt ! 0) \<or> sum_list (take (unat (pkt ! 0) + 2) pkt) \<noteq> 0"
    using assms(3) by (simp only: byte_sum_zero_iff)
  show ?thesis
    using bad assms(1)[symmetric]
    by (auto simp add: anx7688_receive_msg_def io_defs after_recv_def fold_add_u8 Let_def
        split: prod.splits)
qed

theorem receive_malformed_witness:
  "length ([1, 0xf1, 0x0f] @ replicate 29 (0 :: u8)) = 32 \<and>
   sum_list (map unat (take (unat (([1, 0xf1, 0x0f] @ replicate 29 (0 :: u8)) ! 0) + 2)
      ([1, 0xf1, 0x0f] @ replicate 29 (0 :: u8)))) mod 256 \<noteq> 0 \<and>
   anx7688_receive_msg probed
       (fresh_world (\<lambda>n. if n = 0 then 32 else 0) (\<lambda>n. [1, 0xf1, 0x0f] @ replicate 29 0) (\<lambda>n. 0)) =
     (- EINVAL, probed,
      \<lparr>rets = \<lambda>n. if n = 0 then 32 else 0, bufs = \<lambda>n. [1, 0xf1, 0x0f] @ replicate 29 0,
       vals = \<lambda>n. 0, ncalls = 2,
       trace = [I2c_read_block CLIENT_TCPC ANX7688_TCPC_REG_INTERFACE_RECV 32,
                I2c_write_byte CLIENT_TCPC ANX7688_TCPC_REG_INTERFACE_RECV 0]\<rparr>) \<and>
   (replicate 32 (0 :: u8)) ! 0 = 0 \<and>
   anx7688_receive_msg probed
       (fresh_world (\<lambda>n. if n = 0 then 32 else 0) (\<lambda>n. replicate 32 0) (\<lambda>n. 0)) =
     (- EINVAL, probed,
      \<lparr>rets = \<lambda>n. if n = 0 then 32 else 0, bufs = \<lambda>n. replicate 32 0,
       vals = \<lambda>n. 0, ncalls = 2,
       trace = [I2c_read_block CLIENT_TCPC ANX7688_TCPC_REG_INTERFACE_RECV 32,
                I2c_write_byte CLIENT_TCPC ANX7688_TCPC_REG_INTERFACE_RECV 0]\<rparr>)"
  using
    receive_malformed [where pkt = "[1, 0xf1, 0x0f] @ replicate 29 0" and s = probed
      and w = "fresh_world (\<lambda>n. if n = 0 then 32 else 0) (\<lambda>n. [1, 0xf1, 0x0f] @ replicate 29 0) (\<lambda>n. 0)"]
    receive_malformed [where pkt = "replicate 32 0" and s = probed
      and w = "fresh_world (\<lambda>n. if n = 0 then 32 else 0) (\<lambda>n. replicate 32 0) (\<lambda>n. 0)"]
  by (simp add: fresh_world_def next_ret_def after_recv_def)

subsection \<open>The current-limit engine\<close>

lemma pwr_mode_cases:
  "current_update_pwr_mode s =
     (if pd_capable s then TYPEC_PWR_MODE_PD
      else if cc_pin1 s = 4 then TYPEC_PWR_MODE_USB
      else if cc_pin1 s = 8 then TYPEC_PWR_MODE_1_5A
      else if cc_pin1 s = 12 then TYPEC_PWR_MODE_3_0A
      else if cc_pin2 s = 8 then TYPEC_PWR_MODE_1_5A
      else if cc_pin2 s = 12 then TYPEC_PWR_MODE_3_0A
      else TYPEC_PWR_MODE_USB)"
  by (simp add: current_update_pwr_mode_def anx7688_cc_status_def cc_pin1_def cc_pin2_def Let_def)

text \<open>
  C4.  \<open>anx7688_handle_current_update\<close> with \<open>pd_capable\<close> set resolves to the PD mode and
  \<open>pd_current_limit\<close>.  With \<open>pd_capable\<close> clear it takes the low nibble of the cached CC
  status if that is 4, 8 or 12, and otherwise the high nibble: 8 gives the 1.5 A mode and
  1500 mA, 12 gives the 3.0 A mode and 3000 mA, 4 in the low nibble gives the USB mode and
  limit 0, and so does every pair of nibbles in which neither classifies.  A limit other
  than 0 is written to the input supply after fallback detection has been disabled; with
  limit 0 the fallback-detection state is read, and 500 mA is written when the read fails
  or returns 0, nothing otherwise.  In every case the input path is set online and the
  mode is reported to the port, and \<open>input_current_limit\<close> holds the limit.
\<close>

theorem current_update_mapping:
  "(pd_capable s \<longrightarrow> current_update_resolved s = (TYPEC_PWR_MODE_PD, pd_current_limit s)) \<and>
   (\<not> pd_capable s \<and> cc_pin1 s = 8 \<longrightarrow> current_update_resolved s = (TYPEC_PWR_MODE_1_5A, 1500)) \<and>
   (\<not> pd_capable s \<and> cc_pin1 s = 12 \<longrightarrow> current_update_resolved s = (TYPEC_PWR_MODE_3_0A, 3000)) \<and>
   (\<not> pd_capable s \<and> cc_pin1 s = 4 \<longrightarrow> current_update_resolved s = (TYPEC_PWR_MODE_USB, 0)) \<and>
   (\<not> pd_capable s \<and> cc_pin1 s \<notin> {4, 8, 12} \<and> cc_pin2 s = 8 \<longrightarrow>
      current_update_resolved s = (TYPEC_PWR_MODE_1_5A, 1500)) \<and>
   (\<not> pd_capable s \<and> cc_pin1 s \<notin> {4, 8, 12} \<and> cc_pin2 s = 12 \<longrightarrow>
      current_update_resolved s = (TYPEC_PWR_MODE_3_0A, 3000)) \<and>
   (\<not> pd_capable s \<and> cc_pin1 s \<notin> {4, 8, 12} \<and> cc_pin2 s \<notin> {8, 12} \<longrightarrow>
      current_update_resolved s = (TYPEC_PWR_MODE_USB, 0)) \<and>
   (snd (current_update_resolved s) \<noteq> 0 \<longrightarrow>
      anx7688_handle_current_update s w =
        (s\<lparr>input_current_limit := snd (current_update_resolved s)\<rparr>,
         w\<lparr>ncalls := ncalls w + 3,
           trace := trace w @
             [Power_supply_set_property POWER_SUPPLY_PROP_USB_BC_ENABLED 0,
              Power_supply_set_property POWER_SUPPLY_PROP_INPUT_CURRENT_LIMIT
                (snd (current_update_resolved s) * 1000),
              Power_supply_set_property POWER_SUPPLY_PROP_ONLINE 1,
              Typec_set_pwr_opmode (fst (current_update_resolved s))]\<rparr>)) \<and>
   (snd (current_update_resolved s) = 0 \<and> (next_ret w 0 \<noteq> 0 \<or> vals w (ncalls w) = 0) \<longrightarrow>
      anx7688_handle_current_update s w =
        (s\<lparr>input_current_limit := 0\<rparr>,
         w\<lparr>ncalls := ncalls w + 3,
           trace := trace w @
             [Power_supply_get_property POWER_SUPPLY_PROP_USB_BC_ENABLED,
              Power_supply_set_property POWER_SUPPLY_PROP_INPUT_CURRENT_LIMIT (500 * 1000),
              Power_supply_set_property POWER_SUPPLY_PROP_ONLINE 1,
              Typec_set_pwr_opmode (fst (current_update_resolved s))]\<rparr>)) \<and>
   (snd (current_update_resolved s) = 0 \<and> next_ret w 0 = 0 \<and> vals w (ncalls w) \<noteq> 0 \<longrightarrow>
      anx7688_handle_current_update s w =
        (s\<lparr>input_current_limit := 0\<rparr>,
         w\<lparr>ncalls := ncalls w + 2,
           trace := trace w @
             [Power_supply_get_property POWER_SUPPLY_PROP_USB_BC_ENABLED,
              Power_supply_set_property POWER_SUPPLY_PROP_ONLINE 1,
              Typec_set_pwr_opmode (fst (current_update_resolved s))]\<rparr>))"
proof -
  have modes: "(pd_capable s \<longrightarrow> current_update_resolved s = (TYPEC_PWR_MODE_PD, pd_current_limit s)) \<and>
   (\<not> pd_capable s \<and> cc_pin1 s = 8 \<longrightarrow> current_update_resolved s = (TYPEC_PWR_MODE_1_5A, 1500)) \<and>
   (\<not> pd_capable s \<and> cc_pin1 s = 12 \<longrightarrow> current_update_resolved s = (TYPEC_PWR_MODE_3_0A, 3000)) \<and>
   (\<not> pd_capable s \<and> cc_pin1 s = 4 \<longrightarrow> current_update_resolved s = (TYPEC_PWR_MODE_USB, 0)) \<and>
   (\<not> pd_capable s \<and> cc_pin1 s \<notin> {4, 8, 12} \<and> cc_pin2 s = 8 \<longrightarrow>
      current_update_resolved s = (TYPEC_PWR_MODE_1_5A, 1500)) \<and>
   (\<not> pd_capable s \<and> cc_pin1 s \<notin> {4, 8, 12} \<and> cc_pin2 s = 12 \<longrightarrow>
      current_update_resolved s = (TYPEC_PWR_MODE_3_0A, 3000)) \<and>
   (\<not> pd_capable s \<and> cc_pin1 s \<notin> {4, 8, 12} \<and> cc_pin2 s \<notin> {8, 12} \<longrightarrow>
      current_update_resolved s = (TYPEC_PWR_MODE_USB, 0))"
    by (simp add: current_update_resolved_def pwr_mode_cases current_update_limit_def)
  have eff: "(snd (current_update_resolved s) \<noteq> 0 \<longrightarrow>
      anx7688_handle_current_update s w =
        (s\<lparr>input_current_limit := snd (current_update_resolved s)\<rparr>,
         w\<lparr>ncalls := ncalls w + 3,
           trace := trace w @
             [Power_supply_set_property POWER_SUPPLY_PROP_USB_BC_ENABLED 0,
              Power_supply_set_property POWER_SUPPLY_PROP_INPUT_CURRENT_LIMIT
                (snd (current_update_resolved s) * 1000),
              Power_supply_set_property POWER_SUPPLY_PROP_ONLINE 1,
              Typec_set_pwr_opmode (fst (current_update_resolved s))]\<rparr>)) \<and>
   (snd (current_update_resolved s) = 0 \<and> (next_ret w 0 \<noteq> 0 \<or> vals w (ncalls w) = 0) \<longrightarrow>
      anx7688_handle_current_update s w =
        (s\<lparr>input_current_limit := 0\<rparr>,
         w\<lparr>ncalls := ncalls w + 3,
           trace := trace w @
             [Power_supply_get_property POWER_SUPPLY_PROP_USB_BC_ENABLED,
              Power_supply_set_property POWER_SUPPLY_PROP_INPUT_CURRENT_LIMIT (500 * 1000),
              Power_supply_set_property POWER_SUPPLY_PROP_ONLINE 1,
              Typec_set_pwr_opmode (fst (current_update_resolved s))]\<rparr>)) \<and>
   (snd (current_update_resolved s) = 0 \<and> next_ret w 0 = 0 \<and> vals w (ncalls w) \<noteq> 0 \<longrightarrow>
      anx7688_handle_current_update s w =
        (s\<lparr>input_current_limit := 0\<rparr>,
         w\<lparr>ncalls := ncalls w + 2,
           trace := trace w @
             [Power_supply_get_property POWER_SUPPLY_PROP_USB_BC_ENABLED,
              Power_supply_set_property POWER_SUPPLY_PROP_ONLINE 1,
              Typec_set_pwr_opmode (fst (current_update_resolved s))]\<rparr>))"
    by (simp add: current_update_resolved_def anx7688_handle_current_update_def io_defs Let_def)
  from modes eff show ?thesis by blast
qed

theorem current_update_mapping_witness:
  "pd_capable (probed\<lparr>pd_capable := True, pd_current_limit := 3000\<rparr>) \<and>
   current_update_resolved (probed\<lparr>pd_capable := True, pd_current_limit := 3000\<rparr>) = (TYPEC_PWR_MODE_PD, 3000) \<and>
   cc_pin1 (probed\<lparr>last_cc_status := 0x08\<rparr>) = 8 \<and>
   current_update_resolved (probed\<lparr>last_cc_status := 0x08\<rparr>) = (TYPEC_PWR_MODE_1_5A, 1500) \<and>
   cc_pin1 (probed\<lparr>last_cc_status := 0x0c\<rparr>) = 12 \<and>
   current_update_resolved (probed\<lparr>last_cc_status := 0x0c\<rparr>) = (TYPEC_PWR_MODE_3_0A, 3000) \<and>
   cc_pin1 (probed\<lparr>last_cc_status := 0x04\<rparr>) = 4 \<and>
   current_update_resolved (probed\<lparr>last_cc_status := 0x04\<rparr>) = (TYPEC_PWR_MODE_USB, 0) \<and>
   cc_pin1 (probed\<lparr>last_cc_status := 0x80\<rparr>) = 0 \<and> cc_pin2 (probed\<lparr>last_cc_status := 0x80\<rparr>) = 8 \<and>
   current_update_resolved (probed\<lparr>last_cc_status := 0x80\<rparr>) = (TYPEC_PWR_MODE_1_5A, 1500) \<and>
   cc_pin1 (probed\<lparr>last_cc_status := 0xc0\<rparr>) = 0 \<and> cc_pin2 (probed\<lparr>last_cc_status := 0xc0\<rparr>) = 12 \<and>
   current_update_resolved (probed\<lparr>last_cc_status := 0xc0\<rparr>) = (TYPEC_PWR_MODE_3_0A, 3000) \<and>
   cc_pin1 (probed\<lparr>last_cc_status := - 1\<rparr>) = 15 \<and> cc_pin2 (probed\<lparr>last_cc_status := - 1\<rparr>) = 15 \<and>
   current_update_resolved (probed\<lparr>last_cc_status := - 1\<rparr>) = (TYPEC_PWR_MODE_USB, 0) \<and>
   anx7688_handle_current_update (probed\<lparr>last_cc_status := 0x80\<rparr>)
       (fresh_world (\<lambda>n. 0) (\<lambda>n. []) (\<lambda>n. 0)) =
     (probed\<lparr>last_cc_status := 0x80, input_current_limit := 1500\<rparr>,
      \<lparr>rets = \<lambda>n. 0, bufs = \<lambda>n. [], vals = \<lambda>n. 0, ncalls = 3,
       trace = [Power_supply_set_property POWER_SUPPLY_PROP_USB_BC_ENABLED 0,
                Power_supply_set_property POWER_SUPPLY_PROP_INPUT_CURRENT_LIMIT 1500000,
                Power_supply_set_property POWER_SUPPLY_PROP_ONLINE 1,
                Typec_set_pwr_opmode TYPEC_PWR_MODE_1_5A]\<rparr>) \<and>
   next_ret (fresh_world (\<lambda>n. if n = 0 then - EIO else 0) (\<lambda>n. []) (\<lambda>n. 1)) 0 \<noteq> 0 \<and>
   anx7688_handle_current_update (probed\<lparr>last_cc_status := - 1\<rparr>)
       (fresh_world (\<lambda>n. if n = 0 then - EIO else 0) (\<lambda>n. []) (\<lambda>n. 1)) =
     (probed\<lparr>last_cc_status := - 1, input_current_limit := 0\<rparr>,
      \<lparr>rets = \<lambda>n. if n = 0 then - EIO else 0, bufs = \<lambda>n. [], vals = \<lambda>n. 1, ncalls = 3,
       trace = [Power_supply_get_property POWER_SUPPLY_PROP_USB_BC_ENABLED,
                Power_supply_set_property POWER_SUPPLY_PROP_INPUT_CURRENT_LIMIT 500000,
                Power_supply_set_property POWER_SUPPLY_PROP_ONLINE 1,
                Typec_set_pwr_opmode TYPEC_PWR_MODE_USB]\<rparr>) \<and>
   next_ret (fresh_world (\<lambda>n. 0) (\<lambda>n. []) (\<lambda>n. 1)) 0 = 0 \<and>
   vals (fresh_world (\<lambda>n. 0) (\<lambda>n. []) (\<lambda>n. 1)) (ncalls (fresh_world (\<lambda>n. 0) (\<lambda>n. []) (\<lambda>n. 1))) \<noteq> 0 \<and>
   anx7688_handle_current_update (probed\<lparr>last_cc_status := - 1\<rparr>)
       (fresh_world (\<lambda>n. 0) (\<lambda>n. []) (\<lambda>n. 1)) =
     (probed\<lparr>last_cc_status := - 1, input_current_limit := 0\<rparr>,
      \<lparr>rets = \<lambda>n. 0, bufs = \<lambda>n. [], vals = \<lambda>n. 1, ncalls = 2,
       trace = [Power_supply_get_property POWER_SUPPLY_PROP_USB_BC_ENABLED,
                Power_supply_set_property POWER_SUPPLY_PROP_ONLINE 1,
                Typec_set_pwr_opmode TYPEC_PWR_MODE_USB]\<rparr>)"
proof -
  have n: "cc_pin1 (probed\<lparr>last_cc_status := 0x08\<rparr>) = 8"
    "cc_pin1 (probed\<lparr>last_cc_status := 0x0c\<rparr>) = 12"
    "cc_pin1 (probed\<lparr>last_cc_status := 0x04\<rparr>) = 4"
    "cc_pin1 (probed\<lparr>last_cc_status := 0x80\<rparr>) = 0" "cc_pin2 (probed\<lparr>last_cc_status := 0x80\<rparr>) = 8"
    "cc_pin1 (probed\<lparr>last_cc_status := 0xc0\<rparr>) = 0" "cc_pin2 (probed\<lparr>last_cc_status := 0xc0\<rparr>) = 12"
    "cc_pin1 (probed\<lparr>last_cc_status := - 1\<rparr>) = 15" "cc_pin2 (probed\<lparr>last_cc_status := - 1\<rparr>) = 15"
    by (simp_all add: cc_pin1_def cc_pin2_def probed_def mask_eq_exp_minus_1)
  have p: "\<not> pd_capable (probed\<lparr>last_cc_status := c\<rparr>)" for c
    by (simp add: probed_def)
  show ?thesis
    using n p
      current_update_mapping [where s = "probed\<lparr>pd_capable := True, pd_current_limit := 3000\<rparr>"]
      current_update_mapping [where s = "probed\<lparr>last_cc_status := 0x08\<rparr>"]
      current_update_mapping [where s = "probed\<lparr>last_cc_status := 0x0c\<rparr>"]
      current_update_mapping [where s = "probed\<lparr>last_cc_status := 0x04\<rparr>"]
      current_update_mapping [where s = "probed\<lparr>last_cc_status := 0x80\<rparr>"
        and w = "fresh_world (\<lambda>n. 0) (\<lambda>n. []) (\<lambda>n. 0)"]
      current_update_mapping [where s = "probed\<lparr>last_cc_status := 0xc0\<rparr>"]
      current_update_mapping [where s = "probed\<lparr>last_cc_status := - 1\<rparr>"
        and w = "fresh_world (\<lambda>n. if n = 0 then - EIO else 0) (\<lambda>n. []) (\<lambda>n. 1)"]
      current_update_mapping [where s = "probed\<lparr>last_cc_status := - 1\<rparr>"
        and w = "fresh_world (\<lambda>n. 0) (\<lambda>n. []) (\<lambda>n. 1)"]
    by (simp add: fresh_world_def next_ret_def)
qed

subsection \<open>Disconnect\<close>

text \<open>
  C2.  From every state and in every world, \<open>anx7688_disconnect\<close> clears the deadline,
  disables the VCONN and the VBUS regulator if the state had them on, powers the chip off
  (reset asserted, enable released, \<open>POWERED\<close> cleared), clears \<open>pd_capable\<close>, unregisters
  the partner and forgets it, sets the power role to sink and the data role to device in
  the state and on the port, sets the port's power mode to USB and its VCONN role to sink,
  sets the role switch to none, and on the input supply sets the current limit to
  500000 uA, ONLINE to 0 and USB_BC_ENABLED to 1; then it clears \<open>CONNECTED\<close>.  No other
  field of the state changes, except that the cached HDMI hot-plug state becomes 0 when an
  extcon device exists.
\<close>

theorem disconnect_resets:
  assumes "anx7688_disconnect s w = (s', w')"
  shows "current_update_deadline s' = 0 \<and>
         \<not> vconn_on s' \<and> \<not> vbus_on s' \<and>
         ANX7688_F_POWERED \<notin> flags s' \<and>
         \<not> pd_capable s' \<and>
         partner s' = 0 \<and>
         pwr_role s' = TYPEC_SINK \<and> data_role s' = TYPEC_DEVICE \<and>
         ANX7688_F_CONNECTED \<notin> flags s' \<and>
         trace w' = trace w @ disconnect_events s \<and>
         s' = s\<lparr>current_update_deadline := 0,
                 last_extcon_state := (if extcon s \<noteq> 0 then 0 else last_extcon_state s),
                 vconn_on := False, vbus_on := False,
                 flags := flags s - {ANX7688_F_POWERED} - {ANX7688_F_CONNECTED},
                 pd_capable := False, partner := 0,
                 pwr_role := TYPEC_SINK, data_role := TYPEC_DEVICE\<rparr>"
  using assms
  by (auto simp add: anx7688_disconnect_def anx7688_set_hdmi_hpd_def anx7688_power_disable_def
      disconnect_events_def clear_bit_flags_def io_defs Let_def split: if_splits prod.splits)

theorem disconnect_resets_witness:
  "anx7688_disconnect attached (fresh_world (\<lambda>n. 0) (\<lambda>n. []) (\<lambda>n. 0)) =
     (attached\<lparr>current_update_deadline := 0, last_extcon_state := 0,
        vconn_on := False, vbus_on := False, flags := {},
        pd_capable := False, partner := 0,
        pwr_role := TYPEC_SINK, data_role := TYPEC_DEVICE\<rparr>,
      \<lparr>rets = \<lambda>n. 0, bufs = \<lambda>n. [], vals = \<lambda>n. 0, ncalls = 7,
       trace =
         [Extcon_set_state_sync 0,
          Regulator_disable ANX7688_VCONN_INDEX,
          Regulator_disable ANX7688_VBUS_INDEX,
          Gpiod_set_value GPIO_RESET 1, Msleep 5, Gpiod_set_value GPIO_ENABLE 0,
          Typec_unregister_partner 4096,
          Typec_set_pwr_role TYPEC_SINK,
          Typec_set_data_role TYPEC_DEVICE,
          Typec_set_pwr_opmode TYPEC_PWR_MODE_USB,
          Typec_set_vconn_role TYPEC_SINK,
          Usb_role_switch_set_role USB_ROLE_NONE,
          Power_supply_set_property POWER_SUPPLY_PROP_INPUT_CURRENT_LIMIT 500000,
          Power_supply_set_property POWER_SUPPLY_PROP_ONLINE 0,
          Power_supply_set_property POWER_SUPPLY_PROP_USB_BC_ENABLED 1]\<rparr>) \<and>
   disconnect_events attached =
         [Extcon_set_state_sync 0,
          Regulator_disable ANX7688_VCONN_INDEX,
          Regulator_disable ANX7688_VBUS_INDEX,
          Gpiod_set_value GPIO_RESET 1, Msleep 5, Gpiod_set_value GPIO_ENABLE 0,
          Typec_unregister_partner 4096,
          Typec_set_pwr_role TYPEC_SINK,
          Typec_set_data_role TYPEC_DEVICE,
          Typec_set_pwr_opmode TYPEC_PWR_MODE_USB,
          Typec_set_vconn_role TYPEC_SINK,
          Usb_role_switch_set_role USB_ROLE_NONE,
          Power_supply_set_property POWER_SUPPLY_PROP_INPUT_CURRENT_LIMIT 500000,
          Power_supply_set_property POWER_SUPPLY_PROP_ONLINE 0,
          Power_supply_set_property POWER_SUPPLY_PROP_USB_BC_ENABLED 1]"
proof -
  have run: "anx7688_disconnect attached (fresh_world (\<lambda>n. 0) (\<lambda>n. []) (\<lambda>n. 0)) =
     (attached\<lparr>current_update_deadline := 0, last_extcon_state := 0,
        vconn_on := False, vbus_on := False, flags := {},
        pd_capable := False, partner := 0,
        pwr_role := TYPEC_SINK, data_role := TYPEC_DEVICE\<rparr>,
      \<lparr>rets = \<lambda>n. 0, bufs = \<lambda>n. [], vals = \<lambda>n. 0, ncalls = 7,
       trace =
         [Extcon_set_state_sync 0,
          Regulator_disable ANX7688_VCONN_INDEX,
          Regulator_disable ANX7688_VBUS_INDEX,
          Gpiod_set_value GPIO_RESET 1, Msleep 5, Gpiod_set_value GPIO_ENABLE 0,
          Typec_unregister_partner 4096,
          Typec_set_pwr_role TYPEC_SINK,
          Typec_set_data_role TYPEC_DEVICE,
          Typec_set_pwr_opmode TYPEC_PWR_MODE_USB,
          Typec_set_vconn_role TYPEC_SINK,
          Usb_role_switch_set_role USB_ROLE_NONE,
          Power_supply_set_property POWER_SUPPLY_PROP_INPUT_CURRENT_LIMIT 500000,
          Power_supply_set_property POWER_SUPPLY_PROP_ONLINE 0,
          Power_supply_set_property POWER_SUPPLY_PROP_USB_BC_ENABLED 1]\<rparr>)"
    by (simp add: anx7688_disconnect_def anx7688_set_hdmi_hpd_def anx7688_power_disable_def
        clear_bit_flags_def io_defs attached_def probed_def fresh_world_def)
  from disconnect_resets [OF run] run show ?thesis
    by (simp add: fresh_world_def)
qed

subsection \<open>Connect\<close>

lemma fw_poll_events_Suc:
  "fw_poll_events (Suc n) =
     [I2c_read_byte CLIENT ANX7688_REG_EEPROM_LOAD_STATUS0, Msleep 5] @ fw_poll_events n"
  by (simp add: fw_poll_events_def)


lemma connect_wait_fw_loaded:
  "j < n \<Longrightarrow> \<forall>k<j. \<not> fw_loaded_bit (rets w (ncalls w + k)) \<Longrightarrow>
   fw_loaded_bit (rets w (ncalls w + j)) \<Longrightarrow>
   connect_wait_fw n w =
     (True,
      w\<lparr>ncalls := ncalls w + j + 1,
        trace := trace w @ fw_poll_events j @
          [I2c_read_byte CLIENT ANX7688_REG_EEPROM_LOAD_STATUS0]\<rparr>)"
proof (induction n arbitrary: w j)
  case 0
  then show ?case by simp
next
  case (Suc n)
  show ?case
  proof (cases j)
    case 0
    with Suc.prems show ?thesis by (simp add: io_defs fw_poll_events_def)
  next
    case (Suc i)
    let ?w1 = "w\<lparr>ncalls := Suc (ncalls w),
               trace := trace w @ [I2c_read_byte CLIENT ANX7688_REG_EEPROM_LOAD_STATUS0, Msleep 5]\<rparr>"
    have first: "\<not> fw_loaded_bit (rets w (ncalls w))" using Suc.prems(2) Suc by force
    have a: "i < n" using Suc.prems(1) Suc by simp
    have b: "\<forall>k<i. \<not> fw_loaded_bit (rets ?w1 (ncalls ?w1 + k))"
      using Suc.prems(2) Suc by (auto dest: spec [where x = "Suc k" for k])
    have c: "fw_loaded_bit (rets ?w1 (ncalls ?w1 + i))" using Suc.prems(3) Suc by simp
    have "connect_wait_fw n ?w1 =
     (True,
      ?w1\<lparr>ncalls := ncalls ?w1 + i + 1,
        trace := trace ?w1 @ fw_poll_events i @
          [I2c_read_byte CLIENT ANX7688_REG_EEPROM_LOAD_STATUS0]\<rparr>)"
      using a b c by (rule Suc.IH)
    with first Suc show ?thesis
      by (simp add: io_defs fw_poll_events_Suc)
  qed
qed

lemma extends_refl: "extends w w"
  by (simp add: extends_def)

lemma extends_trans: "extends a b \<Longrightarrow> extends b c \<Longrightarrow> extends a c"
  by (auto simp: extends_def)

lemma extends_call: "extends w (snd (call e w))"
  by (simp add: extends_def call_def)

lemma extends_emit: "extends w (emit e w)"
  by (simp add: extends_def emit_def)


lemma ocm_wait_flush_extends: "extends w (snd (ocm_wait_flush n w))"
proof (induction n arbitrary: w)
  case 0
  show ?case by (simp add: extends_refl)
next
  case (Suc n)
  obtain r w0 where rd: "anx7688_tcpc_reg_read ANX7688_TCPC_REG_INTERFACE_SEND w = (r, w0)"
    by (cases "anx7688_tcpc_reg_read ANX7688_TCPC_REG_INTERFACE_SEND w")
  have a: "extends w w0" using rd by (auto simp: io_defs extends_def)
  have "extends w (udelay 100 w0)" using rd by (auto simp: io_defs extends_def)
  moreover have "extends (udelay 100 w0) (snd (ocm_wait_flush n (udelay 100 w0)))" by (rule Suc.IH)
  ultimately have b: "extends w (snd (ocm_wait_flush n (udelay 100 w0)))" by (rule extends_trans)
  from a b rd show ?case by simp
qed

lemma send_ocm_message_extends: "extends w (snd (anx7688_send_ocm_message cmd data w))"
proof -
  let ?w2 = "w\<lparr>ncalls := Suc (Suc (ncalls w)),
               trace := trace w @ [I2c_read_byte CLIENT_TCPC ANX7688_TCPC_REG_INTERFACE_SEND,
                 I2c_write_block CLIENT_TCPC ANX7688_TCPC_REG_INTERFACE_SEND (length data + 3)
                   (ocm_pkt cmd data)]\<rparr>"
  have "extends w ?w2" by (simp add: extends_def)
  moreover have "extends ?w2 (snd (ocm_wait_flush 300 ?w2))" by (rule ocm_wait_flush_extends)
  ultimately have "extends w (snd (ocm_wait_flush 300 ?w2))" by (rule extends_trans)
  then show ?thesis
    by (simp add: anx7688_send_ocm_message_def io_defs extends_def)
qed

lemma send_ocm_message_extends': "anx7688_send_ocm_message cmd data w = (r, w') \<Longrightarrow> extends w w'"
  using send_ocm_message_extends [of w cmd data] by simp

lemma reg_write_extends: "anx7688_reg_write reg v w = (r, w') \<Longrightarrow> extends w w'"
  by (auto simp: io_defs extends_def)











lemma connect_unfold:
  "anx7688_connect s w =
     (if next_ret w 0 \<noteq> 0
      then connect_err_poweroff (next_ret w 0) (connect_powered s) (after_power_on w)
      else
        case connect_wait_fw 100 (after_power_on w) of (loaded, w3) \<Rightarrow>
          if \<not> loaded
          then connect_err_vconoff (- ETIMEDOUT)
                 (set_bit_flags ANX7688_F_FW_FAILED ((connect_powered s)\<lparr>vconn_on := True\<rparr>)) w3
          else
            case connect_fw_loaded ((connect_powered s)\<lparr>vconn_on := True\<rparr>) w3 of
              (ret, s3, w4) \<Rightarrow>
                if ret \<noteq> 0 then connect_err_vconoff ret s3 w4
                else
                  case ktime_get w4 of (now, w5) \<Rightarrow>
                    (0,
                     set_bit_flags ANX7688_F_CONNECTED
                       (s3\<lparr>current_update_deadline := ktime_add_ms now 3000\<rparr>),
                     w5))"
  unfolding connect_powered_def after_power_on_def power_on_events_def
  by (simp add: anx7688_connect_def anx7688_power_enable_def io_defs Let_def)




lemma send_ocm_message_done:
  assumes "length data \<le> 29" and "next_ret w 0 = 0" and "next_ret w 2 \<le> 0"
  shows "anx7688_send_ocm_message cmd data w =
     (next_ret w 2,
      w\<lparr>ncalls := ncalls w + 3,
        trace := trace w @
          [I2c_read_byte CLIENT_TCPC ANX7688_TCPC_REG_INTERFACE_SEND,
           I2c_write_block CLIENT_TCPC ANX7688_TCPC_REG_INTERFACE_SEND (length data + 3)
             (ocm_pkt cmd data),
           I2c_read_byte CLIENT_TCPC ANX7688_TCPC_REG_INTERFACE_SEND]\<rparr>)"
proof -
  let ?w2 = "w\<lparr>ncalls := Suc (Suc (ncalls w)),
               trace := trace w @ [I2c_read_byte CLIENT_TCPC ANX7688_TCPC_REG_INTERFACE_SEND,
                 I2c_write_block CLIENT_TCPC ANX7688_TCPC_REG_INTERFACE_SEND (length data + 3)
                   (ocm_pkt cmd data)]\<rparr>"
  have eq: "anx7688_send_ocm_message cmd data w = ocm_wait_flush 300 ?w2"
    using assms by (simp add: anx7688_send_ocm_message_def io_defs)
  have "ocm_wait_flush 300 ?w2 =
     (rets ?w2 (ncalls ?w2 + 0),
      ?w2\<lparr>ncalls := ncalls ?w2 + 0 + 1,
        trace := trace ?w2 @ poll_events 0 @
          [I2c_read_byte CLIENT_TCPC ANX7688_TCPC_REG_INTERFACE_SEND]\<rparr>)"
    using assms(3) by (intro ocm_wait_flush_exit) (simp_all add: next_ret_def)
  with eq show ?thesis by (simp add: next_ret_def poll_events_def)
qed




text \<open>
  The whole of a successful run from the probed state: the final state and every call, with
  the register values and the four packets as they go over the bus.
\<close>

lemma connect_run_ok_result:
  "anx7688_connect probed (fresh_world script_ok no_bufs no_vals) =
     (0,
      probed\<lparr>last_status := - 1, last_cc_status := - 1, last_dp_state := - 1,
        flags := {ANX7688_F_CONNECTED, ANX7688_F_POWERED}, vconn_on := True,
        partner := 4096, current_update_deadline := 10000000000\<rparr>,
      \<lparr>rets = script_ok, bufs = no_bufs, vals = no_vals, ncalls = 27,
       trace =
         [Msleep 10, Gpiod_set_value GPIO_RESET 1, Gpiod_set_value GPIO_ENABLE 1, Msleep 10,
          Gpiod_set_value GPIO_RESET 0, Udelay 2, Regulator_enable ANX7688_VCONN_INDEX,
          I2c_read_byte CLIENT ANX7688_REG_EEPROM_LOAD_STATUS0,
          I2c_read_block CLIENT ANX7688_REG_FW_VERSION1 2,
          I2c_write_byte CLIENT ANX7688_REG_STATUS_INT 0,
          I2c_write_byte CLIENT ANX7688_REG_STATUS_INT_MASK 0x80,
          I2c_write_byte CLIENT ANX7688_REG_IRQ_EXT_SOURCE2 0xff,
          I2c_write_byte CLIENT ANX7688_REG_IRQ_EXT_MASK2 0xfb,
          I2c_write_byte CLIENT ANX7688_REG_VBUS_OFF_DELAY_TIME 25,
          I2c_write_byte CLIENT ANX7688_REG_TRY_UFP_TIMER 150,
          I2c_write_byte CLIENT ANX7688_REG_MAX_VOLTAGE 50,
          I2c_write_byte CLIENT ANX7688_REG_MAX_POWER 30,
          I2c_write_byte CLIENT ANX7688_REG_MIN_POWER 1,
          I2c_write_byte CLIENT ANX7688_REG_FEATURE_CTRL 0x1a,
          I2c_read_byte CLIENT_TCPC ANX7688_TCPC_REG_INTERFACE_SEND,
          I2c_write_block CLIENT_TCPC ANX7688_TCPC_REG_INTERFACE_SEND 7
            [0x05, 0x00, 0x32, 0x90, 0x01, 0x04, 0x34],
          I2c_read_byte CLIENT_TCPC ANX7688_TCPC_REG_INTERFACE_SEND,
          I2c_read_byte CLIENT_TCPC ANX7688_TCPC_REG_INTERFACE_SEND,
          I2c_write_block CLIENT_TCPC ANX7688_TCPC_REG_INTERFACE_SEND 7
            [0x05, 0x01, 0x2c, 0x91, 0x01, 0x04, 0x38],
          I2c_read_byte CLIENT_TCPC ANX7688_TCPC_REG_INTERFACE_SEND,
          I2c_read_byte CLIENT_TCPC ANX7688_TCPC_REG_INTERFACE_SEND,
          I2c_write_block CLIENT_TCPC ANX7688_TCPC_REG_INTERFACE_SEND 19
            [0x11, 0x02,
             0x00, 0x00, 0x00, 0xec, 0x00, 0x00, 0x00, 0x00,
             0x00, 0x00, 0x00, 0x00, 0x39, 0x00, 0x00, 0x51, 0x77],
          I2c_read_byte CLIENT_TCPC ANX7688_TCPC_REG_INTERFACE_SEND,
          I2c_read_byte CLIENT_TCPC ANX7688_TCPC_REG_INTERFACE_SEND,
          I2c_write_block CLIENT_TCPC ANX7688_TCPC_REG_INTERFACE_SEND 7
            [0x05, 0x03, 0x00, 0x00, 0x01, 0xff, 0xf8],
          I2c_read_byte CLIENT_TCPC ANX7688_TCPC_REG_INTERFACE_SEND,
          Typec_unregister_partner 0,
          Typec_register_partner,
          Ktime_get]\<rparr>)"
proof -
  let ?w = "fresh_world script_ok no_bufs no_vals"
  have wf: "connect_wait_fw 100 (after_power_on ?w) = (True, after_fw_loaded 0 ?w)"
    using connect_wait_fw_loaded [of 0 100 "after_power_on ?w"]
    by (simp add: after_power_on_def after_fw_loaded_def fresh_world_def script_ok_def
        fw_loaded_bit_def fw_poll_events_def)
  show ?thesis
    unfolding connect_unfold wf
    by (simp add: connect_fw_loaded_def after_fw_loaded_def fresh_world_def script_ok_def
        send_ocm_message_done io_defs caps_bytes_def le32_bytes_def dp_snk_identity_def svid_def
        probed_def connect_powered_def set_bit_flags_def IS_ERR_def Let_def next_ret_def
        ocm_pkt_def power_on_events_def fw_poll_events_def ktime_add_ms_def insert_commute)
qed



subsection \<open>Register I/O failures\<close>

text \<open>
  The read of the send register before the transmission is tested with \<open>if (ret)\<close>: a
  failed read is reported as \<open>-EBUSY\<close>, like an occupied queue, and nothing is written.
\<close>

lemma send_first_read_failure:
  assumes "length data \<le> 29" and "next_ret w 0 < 0"
  shows "anx7688_send_ocm_message cmd data w =
     (- EBUSY,
      w\<lparr>ncalls := ncalls w + 1,
        trace := trace w @ [I2c_read_byte CLIENT_TCPC ANX7688_TCPC_REG_INTERFACE_SEND]\<rparr>)"
  using assms by (simp add: anx7688_send_ocm_message_def io_defs)

text \<open>
  C9 (as amended).  A register I/O failure is returned to the caller unchanged by
  \<open>anx7688_receive_msg\<close> when the block read fails, by \<open>anx7688_send_ocm_message\<close> when
  one of the reads of the send register after the transmission fails, and by
  \<open>anx7688_handle_pd_message\<close> when the read of the maximum-voltage or of the
  maximum-power register fails in a source-capability report.  Where the code only logs
  a failure it is not returned: \<open>anx7688_receive_msg\<close> returns 0 for every well-formed
  frame, whatever the write that clears the receive register and the handler return.
\<close>

theorem io_errors_returned:
  "(next_ret w 0 < 0 \<longrightarrow>
      anx7688_receive_msg s w =
        (next_ret w 0, s,
         w\<lparr>ncalls := ncalls w + 1,
           trace := trace w @ [I2c_read_block CLIENT_TCPC ANX7688_TCPC_REG_INTERFACE_RECV 32]\<rparr>)) \<and>
   (length data \<le> 29 \<and> next_ret w 0 = 0 \<and> j < 300 \<and> (\<forall>k<j. 0 < next_ret w (2 + k)) \<and>
    next_ret w (2 + j) < 0 \<longrightarrow>
      fst (anx7688_send_ocm_message cmd data w) = next_ret w (2 + j)) \<and>
   (len mod 4 = 0 \<and> next_ret w 0 < 0 \<longrightarrow>
      fst (anx7688_handle_pd_message s w ANX7688_OCM_MSG_PWR_SRC_CAP msg len) = next_ret w 0) \<and>
   (len mod 4 = 0 \<and> 0 < next_ret w 0 \<and> next_ret w 1 < 0 \<longrightarrow>
      fst (anx7688_handle_pd_message s w ANX7688_OCM_MSG_PWR_SRC_CAP msg len) = next_ret w 1) \<and>
   (0 \<le> next_ret w 0 \<and> pkt = bufs w (ncalls w) \<and> length pkt = 32 \<and>
    1 \<le> unat (pkt ! 0) \<and> unat (pkt ! 0) \<le> 30 \<and>
    sum_list (map unat (take (unat (pkt ! 0) + 2) pkt)) mod 256 = 0 \<longrightarrow>
      fst (anx7688_receive_msg s w) = 0)"
proof (intro conjI impI)
  assume "next_ret w 0 < 0"
  then show "anx7688_receive_msg s w =
        (next_ret w 0, s,
         w\<lparr>ncalls := ncalls w + 1,
           trace := trace w @ [I2c_read_block CLIENT_TCPC ANX7688_TCPC_REG_INTERFACE_RECV 32]\<rparr>)"
    by (simp add: anx7688_receive_msg_def io_defs)
next
  assume a: "length data \<le> 29 \<and> next_ret w 0 = 0 \<and> j < 300 \<and>
    (\<forall>k<j. 0 < next_ret w (2 + k)) \<and> next_ret w (2 + j) < 0"
  let ?w2 = "w\<lparr>ncalls := Suc (Suc (ncalls w)),
               trace := trace w @ [I2c_read_byte CLIENT_TCPC ANX7688_TCPC_REG_INTERFACE_SEND,
                 I2c_write_block CLIENT_TCPC ANX7688_TCPC_REG_INTERFACE_SEND (length data + 3)
                   (ocm_pkt cmd data)]\<rparr>"
  have eq: "anx7688_send_ocm_message cmd data w = ocm_wait_flush 300 ?w2"
    using a by (simp add: anx7688_send_ocm_message_def io_defs)
  have "j < 300" using a by simp
  moreover have "\<forall>k<j. 0 < rets ?w2 (ncalls ?w2 + k)" using a by (simp add: next_ret_def)
  moreover have "rets ?w2 (ncalls ?w2 + j) \<le> 0" using a by (simp add: next_ret_def)
  ultimately have "ocm_wait_flush 300 ?w2 =
     (rets ?w2 (ncalls ?w2 + j),
      ?w2\<lparr>ncalls := ncalls ?w2 + j + 1,
        trace := trace ?w2 @ poll_events j @
          [I2c_read_byte CLIENT_TCPC ANX7688_TCPC_REG_INTERFACE_SEND]\<rparr>)"
    by (rule ocm_wait_flush_exit)
  with eq show "fst (anx7688_send_ocm_message cmd data w) = next_ret w (2 + j)"
    by (simp add: next_ret_def)
next
  assume "len mod 4 = 0 \<and> next_ret w 0 < 0"
  then show "fst (anx7688_handle_pd_message s w ANX7688_OCM_MSG_PWR_SRC_CAP msg len) = next_ret w 0"
    by (simp add: anx7688_handle_pd_message_def io_defs)
next
  assume "len mod 4 = 0 \<and> 0 < next_ret w 0 \<and> next_ret w 1 < 0"
  then show "fst (anx7688_handle_pd_message s w ANX7688_OCM_MSG_PWR_SRC_CAP msg len) = next_ret w 1"
    by (simp add: anx7688_handle_pd_message_def io_defs)
next
  assume a: "0 \<le> next_ret w 0 \<and> pkt = bufs w (ncalls w) \<and> length pkt = 32 \<and>
    1 \<le> unat (pkt ! 0) \<and> unat (pkt ! 0) \<le> 30 \<and>
    sum_list (map unat (take (unat (pkt ! 0) + 2) pkt)) mod 256 = 0"
  then have "anx7688_receive_msg s w =
     (case anx7688_handle_pd_message s (after_recv w) (pkt ! 1) (drop 2 pkt) (unat (pkt ! 0) - 1) of
        (r, s', w') \<Rightarrow> (0, s', w'))"
    by (intro receive_msg_valid) blast+
  then show "fst (anx7688_receive_msg s w) = 0"
    by (simp split: prod.splits)
qed

theorem io_errors_returned_witness:
  "next_ret (fresh_world (\<lambda>n. - EIO) no_bufs no_vals) 0 < 0 \<and>
   fst (anx7688_receive_msg probed (fresh_world (\<lambda>n. - EIO) no_bufs no_vals)) = - EIO \<and>
   length svid \<le> 29 \<and>
   next_ret (fresh_world (\<lambda>n. if n = 2 then 1 else if n = 3 then - EIO else 0) no_bufs no_vals) 0 = 0 \<and>
   next_ret (fresh_world (\<lambda>n. if n = 2 then 1 else if n = 3 then - EIO else 0) no_bufs no_vals)
     (2 + 1) < 0 \<and>
   fst (anx7688_send_ocm_message 3 svid
          (fresh_world (\<lambda>n. if n = 2 then 1 else if n = 3 then - EIO else 0) no_bufs no_vals)) = - EIO \<and>
   (4 :: nat) mod 4 = 0 \<and>
   fst (anx7688_handle_pd_message probed (fresh_world (\<lambda>n. - EIO) no_bufs no_vals)
          ANX7688_OCM_MSG_PWR_SRC_CAP (drop 2 src_cap_frame) 4) = - EIO \<and>
   0 < next_ret (fresh_world (\<lambda>n. if n = 0 then 50 else - EIO) no_bufs no_vals) 0 \<and>
   next_ret (fresh_world (\<lambda>n. if n = 0 then 50 else - EIO) no_bufs no_vals) 1 < 0 \<and>
   fst (anx7688_handle_pd_message probed
          (fresh_world (\<lambda>n. if n = 0 then 50 else - EIO) no_bufs no_vals)
          ANX7688_OCM_MSG_PWR_SRC_CAP (drop 2 src_cap_frame) 4) = - EIO \<and>
   0 \<le> next_ret (fresh_world script_recv_io_errors bufs_src_cap no_vals) 0 \<and>
   length src_cap_frame = 32 \<and> unat (src_cap_frame ! 0) = 5 \<and>
   sum_list (map unat (take (unat (src_cap_frame ! 0) + 2) src_cap_frame)) mod 256 = 0 \<and>
   fst (anx7688_receive_msg probed (fresh_world script_recv_io_errors bufs_src_cap no_vals)) = 0"
  using
    io_errors_returned [where w = "fresh_world (\<lambda>n. - EIO) no_bufs no_vals" and s = probed
      and len = 4 and msg = "drop 2 src_cap_frame" and data = svid and j = 0 and cmd = 3
      and pkt = "[]"]
    io_errors_returned [where w = "fresh_world (\<lambda>n. if n = 2 then 1 else if n = 3 then - EIO else 0)
        no_bufs no_vals" and s = probed
      and len = 4 and msg = "drop 2 src_cap_frame" and data = svid and j = 1 and cmd = 3
      and pkt = "[]"]
    io_errors_returned [where w = "fresh_world (\<lambda>n. if n = 0 then 50 else - EIO) no_bufs no_vals"
      and s = probed
      and len = 4 and msg = "drop 2 src_cap_frame" and data = svid and j = 0 and cmd = 3
      and pkt = "[]"]
    io_errors_returned [where w = "fresh_world script_recv_io_errors bufs_src_cap no_vals"
      and s = probed
      and len = 4 and msg = "drop 2 src_cap_frame" and data = svid and j = 0 and cmd = 3
      and pkt = src_cap_frame]
  by (simp add: fresh_world_def next_ret_def svid_def src_cap_frame_def bufs_src_cap_def
      script_recv_io_errors_def)

text \<open>
  C9 as the specification states it has every register I/O failure returned to the caller.  Here
  the block read delivers a well-formed source-capability report, the write that clears
  the receive register fails with \<open>-EIO\<close>, and so does the read of the maximum-voltage
  register in the handler, which returns \<open>-EIO\<close>; \<open>anx7688_receive_msg\<close> returns 0.
\<close>

theorem receive_swallows_io_errors:
  "next_ret (fresh_world script_recv_io_errors bufs_src_cap no_vals) 1 = - EIO \<and>
   anx7688_handle_pd_message probed
       (after_recv (fresh_world script_recv_io_errors bufs_src_cap no_vals))
       ANX7688_OCM_MSG_PWR_SRC_CAP (drop 2 src_cap_frame) 4 =
     (- EIO, probed\<lparr>pd_capable := True\<rparr>,
      \<lparr>rets = script_recv_io_errors, bufs = bufs_src_cap, vals = no_vals, ncalls = 3,
       trace = [I2c_read_block CLIENT_TCPC ANX7688_TCPC_REG_INTERFACE_RECV 32,
                I2c_write_byte CLIENT_TCPC ANX7688_TCPC_REG_INTERFACE_RECV 0,
                I2c_read_byte CLIENT ANX7688_REG_MAX_VOLTAGE_STATUS]\<rparr>) \<and>
   anx7688_receive_msg probed (fresh_world script_recv_io_errors bufs_src_cap no_vals) =
     (0, probed\<lparr>pd_capable := True\<rparr>,
      \<lparr>rets = script_recv_io_errors, bufs = bufs_src_cap, vals = no_vals, ncalls = 3,
       trace = [I2c_read_block CLIENT_TCPC ANX7688_TCPC_REG_INTERFACE_RECV 32,
                I2c_write_byte CLIENT_TCPC ANX7688_TCPC_REG_INTERFACE_RECV 0,
                I2c_read_byte CLIENT ANX7688_REG_MAX_VOLTAGE_STATUS]\<rparr>)"
  by (simp add: anx7688_receive_msg_def anx7688_handle_pd_message_def io_defs after_recv_def
      fresh_world_def script_recv_io_errors_def bufs_src_cap_def src_cap_frame_def Let_def)

end
